theory Spec2Isabelle
  imports Complex_Main
begin

section \<open>Documents of the store\<close>

text \<open>
  The backend of \<^verbatim>\<open>server.py\<close> keeps five MongoDB collections. A document is a record
  with the fields the handlers write, a collection is the list of its documents in
  insertion order. Python's \<^verbatim>\<open>int\<close> is \<^typ>\<open>int\<close>.

  A price, and the total that the checkout computes from prices, is a Python
  \<^verbatim>\<open>float\<close>, an IEEE double: additions round, and a double may be infinite or not a
  number. The type \<open>'f\<close> of these values is a parameter of the documents, and the four
  operations the checkout performs on them are the fields of \<open>float_arith\<close>:
  \<^verbatim>\<open>0.0\<close>, \<^verbatim>\<open>total + x\<close>, \<^verbatim>\<open>price * quantity\<close> (a float times an int) and the test
  \<^verbatim>\<open>total <= 0\<close>. The total of an order is the quotient of two ints and the revenue is a
  sum of such totals; they are kept as \<^typ>\<open>real\<close>.
\<close>

record 'f float_arith =
  fl_zero :: 'f
  fl_add :: "'f \<Rightarrow> 'f \<Rightarrow> 'f"
  fl_mul_int :: "'f \<Rightarrow> int \<Rightarrow> 'f"
  fl_le_zero :: "'f \<Rightarrow> bool"

record user =
  u_id :: string
  u_email :: string
  u_password :: string
  u_name :: string
  u_role :: string
  u_created_at :: string

record 'f product =
  p_id :: string
  p_name :: string
  p_description :: string
  p_price :: 'f
  p_category :: string
  p_images :: "string list"
  p_sizes :: "string list"
  p_colors :: "string list"
  p_brand :: string
  p_stock :: int
  p_featured :: bool
  p_created_at :: string

text \<open>\<^verbatim>\<open>class CartItem\<close>: the request body of the cart routes and, through
  \<^verbatim>\<open>model_dump()\<close>, the stored line item.\<close>

record cart_item =
  ci_product_id :: string
  ci_quantity :: int
  ci_size :: string
  ci_color :: string

record cart =
  c_id :: string
  c_user_id :: string
  c_items :: "cart_item list"
  c_updated_at :: string

text \<open>A transaction is inserted without \<^verbatim>\<open>updated_at\<close>; the field appears with the first
  \<^verbatim>\<open>$set\<close>.\<close>

record 'f payment_transaction =
  t_id :: string
  t_session_id :: string
  t_user_id :: string
  t_amount :: 'f
  t_currency :: string
  t_status :: string
  t_payment_status :: string
  t_metadata_cart_id :: string
  t_created_at :: string
  t_updated_at :: "string option"

record order =
  o_id :: string
  o_user_id :: string
  o_items :: "cart_item list"
  o_total :: real
  o_status :: string
  o_payment_session_id :: string
  o_created_at :: string

record 'f db =
  users :: "user list"
  products :: "'f product list"
  carts :: "cart list"
  payment_transactions :: "'f payment_transaction list"
  orders :: "order list"

section \<open>Collection primitives\<close>

text \<open>\<^verbatim>\<open>find_one(query)\<close> returns the first matching document or \<^verbatim>\<open>None\<close>.\<close>

definition find_one :: "('a \<Rightarrow> bool) \<Rightarrow> 'a list \<Rightarrow> 'a option" where
  "find_one q xs = List.find q xs"

text \<open>\<^verbatim>\<open>update_one(query, {"$set": ...})\<close> changes the first matching document only.\<close>

fun update_one :: "('a \<Rightarrow> bool) \<Rightarrow> ('a \<Rightarrow> 'a) \<Rightarrow> 'a list \<Rightarrow> 'a list" where
  "update_one q f [] = []"
| "update_one q f (x # xs) = (if q x then f x # xs else x # update_one q f xs)"

definition insert_one :: "'a \<Rightarrow> 'a list \<Rightarrow> 'a list" where
  "insert_one x xs = xs @ [x]"

definition count_documents :: "'a list \<Rightarrow> nat" where
  "count_documents xs = length xs"

text \<open>\<^verbatim>\<open>find({}).to_list(n)\<close> returns at most the first \<open>n\<close> documents.\<close>

definition to_list :: "nat \<Rightarrow> 'a list \<Rightarrow> 'a list" where
  "to_list n xs = take n xs"

text \<open>The store keeps an int in at most 8 bytes. Its driver encodes the document of a
  write before sending it and raises \<^verbatim>\<open>OverflowError\<close> when an int of the document does
  not fit; nothing is written then. A list of line items is \<open>storable\<close> when the encoder
  accepts it. The store itself only ever holds storable items.\<close>

definition fits_int64 :: "int \<Rightarrow> bool" where
  "fits_int64 n \<longleftrightarrow> - (2 ^ 63) \<le> n \<and> n < 2 ^ 63"

section \<open>Errors and the payment provider\<close>

text \<open>An \<^verbatim>\<open>HTTPException\<close> carries its status code and detail. An exception raised by the
  provider's client is not caught by the checkout handlers and reaches the caller, and
  so does the \<^verbatim>\<open>OverflowError\<close> that the store's encoder raises on an int beyond 8 bytes.\<close>

datatype error = HTTPException nat string | ProviderException string | OverflowError

record 'f checkout_session_request =
  rq_amount :: 'f
  rq_currency :: string
  rq_success_url :: string
  rq_cancel_url :: string
  rq_metadata :: "(string \<times> string) list"

record checkout_session =
  cs_session_id :: string
  cs_url :: string

record checkout_status =
  st_status :: string
  st_payment_status :: string
  st_amount_total :: int
  st_currency :: string

record webhook_response =
  wr_session_id :: string
  wr_payment_status :: string

text \<open>The client of the external provider (\<^verbatim>\<open>StripeCheckout\<close> of the library
  \<^verbatim>\<open>emergentintegrations\<close>) is not part of the repository: its three calls are fields
  of a record, each returning the raised exception or the value. The handlers build
  the client from the webhook URL, so they take a function from that URL to a client.\<close>

record 'f stripe_checkout =
  api_create_checkout_session :: "'f checkout_session_request \<Rightarrow> string + checkout_session"
  api_get_checkout_status :: "string \<Rightarrow> string + checkout_status"
  api_handle_webhook :: "string \<Rightarrow> string option \<Rightarrow> string + webhook_response"

text \<open>\<^verbatim>\<open>str(base_url).rstrip('/')\<close> and the f-string built from it.\<close>

definition rstrip :: "char \<Rightarrow> string \<Rightarrow> string" where
  "rstrip ch s = rev (dropWhile (\<lambda>x. x = ch) (rev s))"

definition webhook_url_of :: "string \<Rightarrow> string" where
  "webhook_url_of base_url = rstrip CHR ''/'' base_url @ ''/api/webhook/stripe''"

section \<open>Cart routes\<close>

text \<open>The test of \<^verbatim>\<open>add_to_cart\<close> and \<^verbatim>\<open>update_cart_item\<close> on a stored item \<open>x\<close>.\<close>

definition same_key :: "cart_item \<Rightarrow> cart_item \<Rightarrow> bool" where
  "same_key item x \<longleftrightarrow>
     ci_product_id x = ci_product_id item \<and> ci_size x = ci_size item \<and> ci_color x = ci_color item"

text \<open>\<^verbatim>\<open>next((i for i, x in enumerate(items) if ...), None)\<close>.\<close>

fun first_index :: "('a \<Rightarrow> bool) \<Rightarrow> 'a list \<Rightarrow> nat option" where
  "first_index P [] = None"
| "first_index P (x # xs) = (if P x then Some 0 else map_option Suc (first_index P xs))"

definition storable :: "cart_item list \<Rightarrow> bool" where
  "storable items = list_all (\<lambda>x. fits_int64 (ci_quantity x)) items"

definition new_cart :: "string \<Rightarrow> string \<Rightarrow> string \<Rightarrow> cart" where
  "new_cart uuid uid now = \<lparr>c_id = uuid, c_user_id = uid, c_items = [], c_updated_at = now\<rparr>"

text \<open>The loop of \<^verbatim>\<open>get_cart\<close> that joins each item with its product and drops the items
  whose product is gone.\<close>

fun populate :: "'f product list \<Rightarrow> cart_item list \<Rightarrow> (cart_item \<times> 'f product) list" where
  "populate ps [] = []"
| "populate ps (item # items) =
     (case find_one (\<lambda>p. p_id p = ci_product_id item) ps of
        Some product \<Rightarrow> (item, product) # populate ps items
      | None \<Rightarrow> populate ps items)"

text \<open>Every handler below takes the authenticated \<open>user\<close> that \<^verbatim>\<open>get_current_user\<close>
  resolved, and the values it draws from \<^verbatim>\<open>uuid.uuid4()\<close> and the clock.\<close>

definition get_cart ::
  "'f db \<Rightarrow> user \<Rightarrow> string \<Rightarrow> string \<Rightarrow> (cart \<times> (cart_item \<times> 'f product) list) \<times> 'f db" where
  "get_cart s user uuid now =
     (case find_one (\<lambda>c. c_user_id c = u_id user) (carts s) of
        Some c \<Rightarrow> ((c, populate (products s) (c_items c)), s)
      | None \<Rightarrow>
          (let c = new_cart uuid (u_id user) now
           in ((c, populate (products s) (c_items c)), s\<lparr>carts := insert_one c (carts s)\<rparr>)))"

definition add_items :: "cart_item \<Rightarrow> cart_item list \<Rightarrow> cart_item list" where
  "add_items item items =
     (case first_index (same_key item) items of
        Some i \<Rightarrow> items[i := (items ! i)\<lparr>ci_quantity := ci_quantity (items ! i) + ci_quantity item\<rparr>]
      | None \<Rightarrow> items @ [item])"

text \<open>\<^verbatim>\<open>add_to_cart\<close> inserts the missing cart, then writes the new items with
  \<^verbatim>\<open>update_one\<close>. When the encoder refuses the items the handler ends with the error; a
  cart inserted before stays.\<close>

definition add_to_cart ::
  "'f db \<Rightarrow> cart_item \<Rightarrow> user \<Rightarrow> string \<Rightarrow> string \<Rightarrow> string \<Rightarrow> (error + string) \<times> 'f db" where
  "add_to_cart s item user uuid now_created now =
     (let (c, s1) =
            (case find_one (\<lambda>c. c_user_id c = u_id user) (carts s) of
               Some c \<Rightarrow> (c, s)
             | None \<Rightarrow>
                 (let c = new_cart uuid (u_id user) now_created
                  in (c, s\<lparr>carts := insert_one c (carts s)\<rparr>)));
          items = add_items item (c_items c)
      in if storable items
         then (Inr ''Item added to cart'',
               s1\<lparr>carts := update_one (\<lambda>c. c_user_id c = u_id user)
                               (\<lambda>c. c\<lparr>c_items := items, c_updated_at := now\<rparr>) (carts s1)\<rparr>)
         else (Inl OverflowError, s1))"

text \<open>The loop of \<^verbatim>\<open>update_cart_item\<close>: at the first matching item it pops or overwrites,
  then breaks.\<close>

fun update_items :: "cart_item \<Rightarrow> cart_item list \<Rightarrow> cart_item list" where
  "update_items item [] = []"
| "update_items item (x # xs) =
     (if same_key item x
      then (if ci_quantity item \<le> 0 then xs else x\<lparr>ci_quantity := ci_quantity item\<rparr> # xs)
      else x # update_items item xs)"

definition update_cart_item :: "'f db \<Rightarrow> cart_item \<Rightarrow> user \<Rightarrow> string \<Rightarrow> (error + string) \<times> 'f db" where
  "update_cart_item s item user now =
     (case find_one (\<lambda>c. c_user_id c = u_id user) (carts s) of
        None \<Rightarrow> (Inl (HTTPException 404 ''Cart not found''), s)
      | Some c \<Rightarrow>
          (let items = update_items item (c_items c)
           in if storable items
              then (Inr ''Cart updated'',
                    s\<lparr>carts := update_one (\<lambda>c. c_user_id c = u_id user)
                                   (\<lambda>c. c\<lparr>c_items := items, c_updated_at := now\<rparr>) (carts s)\<rparr>)
              else (Inl OverflowError, s)))"

definition clear_cart :: "'f db \<Rightarrow> user \<Rightarrow> string \<Rightarrow> string \<times> 'f db" where
  "clear_cart s user now =
     (''Cart cleared'',
      s\<lparr>carts := update_one (\<lambda>c. c_user_id c = u_id user)
                     (\<lambda>c. c\<lparr>c_items := [], c_updated_at := now\<rparr>) (carts s)\<rparr>)"

section \<open>Checkout routes\<close>

text \<open>The loop of \<^verbatim>\<open>create_checkout_session\<close> over \<^verbatim>\<open>cart["items"]\<close>, the running
  \<^verbatim>\<open>total\<close> as accumulator, in the arithmetic \<open>F\<close> of the doubles.\<close>

fun cart_total :: "'f float_arith \<Rightarrow> 'f product list \<Rightarrow> cart_item list \<Rightarrow> 'f \<Rightarrow> 'f" where
  "cart_total F ps [] tot = tot"
| "cart_total F ps (item # items) tot =
     (case find_one (\<lambda>p. p_id p = ci_product_id item) ps of
        Some product \<Rightarrow>
          cart_total F ps items (fl_add F tot (fl_mul_int F (p_price product) (ci_quantity item)))
      | None \<Rightarrow> cart_total F ps items tot)"

definition checkout_request :: "string \<Rightarrow> 'f \<Rightarrow> user \<Rightarrow> cart \<Rightarrow> 'f checkout_session_request" where
  "checkout_request origin_url tot user c =
     \<lparr>rq_amount = tot, rq_currency = ''usd'',
      rq_success_url = origin_url @ ''/checkout/success?session_id={CHECKOUT_SESSION_ID}'',
      rq_cancel_url = origin_url @ ''/cart'',
      rq_metadata = [(''user_id'', u_id user), (''cart_id'', c_id c)]\<rparr>"

definition new_transaction ::
  "string \<Rightarrow> checkout_session \<Rightarrow> user \<Rightarrow> 'f \<Rightarrow> cart \<Rightarrow> string \<Rightarrow> 'f payment_transaction" where
  "new_transaction uuid session user tot c now =
     \<lparr>t_id = uuid, t_session_id = cs_session_id session, t_user_id = u_id user,
      t_amount = tot, t_currency = ''usd'', t_status = ''pending'',
      t_payment_status = ''initiated'', t_metadata_cart_id = c_id c,
      t_created_at = now, t_updated_at = None\<rparr>"

definition create_checkout_session ::
  "'f float_arith \<Rightarrow> (string \<Rightarrow> 'f stripe_checkout) \<Rightarrow> 'f db \<Rightarrow> string \<Rightarrow> string \<Rightarrow> user
     \<Rightarrow> string \<Rightarrow> string \<Rightarrow> (error + checkout_session) \<times> 'f db" where
  "create_checkout_session F StripeCheckout s origin_url base_url user uuid now =
     (case find_one (\<lambda>c. c_user_id c = u_id user) (carts s) of
        None \<Rightarrow> (Inl (HTTPException 400 ''Cart is empty''), s)
      | Some c \<Rightarrow>
          if c_items c = [] then (Inl (HTTPException 400 ''Cart is empty''), s)
          else
            (let tot = cart_total F (products s) (c_items c) (fl_zero F)
             in if fl_le_zero F tot then (Inl (HTTPException 400 ''Invalid cart total''), s)
                else
                  (case api_create_checkout_session (StripeCheckout (webhook_url_of base_url))
                          (checkout_request origin_url tot user c) of
                     Inl e \<Rightarrow> (Inl (ProviderException e), s)
                   | Inr session \<Rightarrow>
                       (Inr \<lparr>cs_session_id = cs_session_id session, cs_url = cs_url session\<rparr>,
                        s\<lparr>payment_transactions :=
                            insert_one (new_transaction uuid session user tot c now)
                              (payment_transactions s)\<rparr>))))"

definition mark_paid :: "string \<Rightarrow> 'f payment_transaction \<Rightarrow> 'f payment_transaction" where
  "mark_paid now t = t\<lparr>t_status := ''complete'', t_payment_status := ''paid'', t_updated_at := Some now\<rparr>"

definition new_order :: "string \<Rightarrow> user \<Rightarrow> cart \<Rightarrow> checkout_status \<Rightarrow> string \<Rightarrow> string \<Rightarrow> order" where
  "new_order uuid user c status session_id now =
     \<lparr>o_id = uuid, o_user_id = u_id user, o_items = c_items c,
      o_total = real_of_int (st_amount_total status) / 100, o_status = ''confirmed'',
      o_payment_session_id = session_id, o_created_at = now\<rparr>"

text \<open>The block of \<^verbatim>\<open>get_checkout_status\<close> under \<^verbatim>\<open># Create order\<close>, run on the store in
  which the transaction is already marked.\<close>

definition create_order ::
  "'f db \<Rightarrow> user \<Rightarrow> checkout_status \<Rightarrow> string \<Rightarrow> string \<Rightarrow> string \<Rightarrow> 'f db" where
  "create_order s user status session_id uuid now =
     (case find_one (\<lambda>c. c_user_id c = u_id user) (carts s) of
        None \<Rightarrow> s
      | Some c \<Rightarrow>
          if c_items c = [] then s
          else s\<lparr>orders := insert_one (new_order uuid user c status session_id now) (orders s),
                 carts := update_one (\<lambda>c. c_user_id c = u_id user) (\<lambda>c. c\<lparr>c_items := []\<rparr>) (carts s)\<rparr>)"

definition get_checkout_status ::
  "(string \<Rightarrow> 'f stripe_checkout) \<Rightarrow> 'f db \<Rightarrow> string \<Rightarrow> string \<Rightarrow> user \<Rightarrow> string \<Rightarrow> string \<Rightarrow> string
     \<Rightarrow> (error + checkout_status) \<times> 'f db" where
  "get_checkout_status StripeCheckout s session_id base_url user uuid now_updated now =
     (case api_get_checkout_status (StripeCheckout (webhook_url_of base_url)) session_id of
        Inl e \<Rightarrow> (Inl (ProviderException e), s)
      | Inr status \<Rightarrow>
          (let reply = \<lparr>st_status = st_status status, st_payment_status = st_payment_status status,
                        st_amount_total = st_amount_total status, st_currency = st_currency status\<rparr>
           in if st_payment_status status = ''paid''
              then (case find_one (\<lambda>t. t_session_id t = session_id) (payment_transactions s) of
                      None \<Rightarrow> (Inr reply, s)
                    | Some t \<Rightarrow>
                        if t_payment_status t \<noteq> ''paid''
                        then (Inr reply,
                              create_order
                                (s\<lparr>payment_transactions :=
                                     update_one (\<lambda>t. t_session_id t = session_id) (mark_paid now_updated)
                                       (payment_transactions s)\<rparr>)
                                user status session_id uuid now)
                        else (Inr reply, s))
              else (Inr reply, s)))"

text \<open>\<^verbatim>\<open>stripe_webhook\<close>: whatever is raised inside the \<^verbatim>\<open>try\<close> is logged and answered
  with the same acknowledgement.\<close>

definition stripe_webhook ::
  "(string \<Rightarrow> 'f stripe_checkout) \<Rightarrow> 'f db \<Rightarrow> string \<Rightarrow> string option \<Rightarrow> string \<Rightarrow> string
     \<Rightarrow> bool \<times> 'f db" where
  "stripe_webhook StripeCheckout s body signature base_url now =
     (case api_handle_webhook (StripeCheckout (webhook_url_of base_url)) body signature of
        Inl e \<Rightarrow> (True, s)
      | Inr webhook_response \<Rightarrow>
          if wr_payment_status webhook_response = ''paid''
          then (True,
                s\<lparr>payment_transactions :=
                    update_one (\<lambda>t. t_session_id t = wr_session_id webhook_response) (mark_paid now)
                      (payment_transactions s)\<rparr>)
          else (True, s))"

section \<open>Admin statistics\<close>

definition get_admin_user :: "user \<Rightarrow> error + user" where
  "get_admin_user user =
     (if u_role user \<noteq> ''admin'' then Inl (HTTPException 403 ''Admin access required'') else Inr user)"

record admin_stats =
  total_products :: nat
  total_orders :: nat
  total_users :: nat
  total_revenue :: real

definition get_admin_stats :: "'f db \<Rightarrow> user \<Rightarrow> error + admin_stats" where
  "get_admin_stats s user =
     (case get_admin_user user of
        Inl e \<Rightarrow> Inl e
      | Inr _ \<Rightarrow>
          Inr \<lparr>total_products = count_documents (products s),
               total_orders = count_documents (orders s),
               total_users = count_documents (users s),
               total_revenue = sum_list (map o_total (to_list 1000 (orders s)))\<rparr>)"

section \<open>The total as the specification words it\<close>

text \<open>The price of a product as the catalog holds it now; the amounts of the line items,
  price times quantity, for the items whose product the catalog still has, in the order
  of the cart; and their sum, added up from \<^verbatim>\<open>0.0\<close> in that order in the arithmetic of
  the doubles.\<close>

definition catalog_price :: "'f product list \<Rightarrow> string \<Rightarrow> 'f option" where
  "catalog_price ps pid = map_option p_price (find_one (\<lambda>p. p_id p = pid) ps)"

definition line_amounts :: "'f float_arith \<Rightarrow> 'f product list \<Rightarrow> cart_item list \<Rightarrow> 'f list" where
  "line_amounts F ps items =
     List.map_filter
       (\<lambda>item. map_option (\<lambda>price. fl_mul_int F price (ci_quantity item))
                 (catalog_price ps (ci_product_id item)))
       items"

definition spec_total :: "'f float_arith \<Rightarrow> 'f product list \<Rightarrow> cart_item list \<Rightarrow> 'f" where
  "spec_total F ps items = foldl (fl_add F) (fl_zero F) (line_amounts F ps items)"

text \<open>The arithmetic of the reals, in which nothing is rounded. The doubles agree with it
  wherever every intermediate value is a double, as on the small whole numbers of the
  examples: \<^verbatim>\<open>485.0 * 2\<close> is \<^verbatim>\<open>970.0\<close>.\<close>

definition exact_arith :: "real float_arith" where
  "exact_arith =
     \<lparr>fl_zero = 0, fl_add = (\<lambda>x y. x + y), fl_mul_int = (\<lambda>x n. x * real_of_int n),
      fl_le_zero = (\<lambda>x. x \<le> 0)\<rparr>"

section \<open>The cart invariant as the specification words it\<close>

text \<open>The triple that identifies a line item, and the invariant: no cart of the store holds
  two entries with the same triple.\<close>

definition item_key :: "cart_item \<Rightarrow> string \<times> string \<times> string" where
  "item_key x = (ci_product_id x, ci_size x, ci_color x)"

definition cart_inv :: "'f db \<Rightarrow> bool" where
  "cart_inv s = list_all (\<lambda>c. distinct (map item_key (c_items c))) (carts s)"

section \<open>An example store\<close>

definition empty_db :: "'f db" where
  "empty_db = \<lparr>users = [], products = [], carts = [], payment_transactions = [], orders = []\<rparr>"

definition alice :: user where
  "alice = \<lparr>u_id = ''u1'', u_email = ''alice@example.com'', u_password = ''h1'', u_name = ''Alice'',
            u_role = ''user'', u_created_at = ''t0''\<rparr>"

definition bob :: user where
  "bob = \<lparr>u_id = ''u2'', u_email = ''bob@example.com'', u_password = ''h2'', u_name = ''Bob'',
          u_role = ''user'', u_created_at = ''t0''\<rparr>"

definition root :: user where
  "root = \<lparr>u_id = ''u0'', u_email = ''admin@example.com'', u_password = ''h0'', u_name = ''Admin'',
           u_role = ''admin'', u_created_at = ''t0''\<rparr>"

definition oxford :: "real product" where
  "oxford = \<lparr>p_id = ''p1'', p_name = ''Classic Oxford'', p_description = ''Timeless elegance'',
             p_price = 485, p_category = ''men'', p_images = [], p_sizes = [''8'', ''9''],
             p_colors = [''Black'', ''Cognac''], p_brand = ''Maison Luxe'', p_stock = 50,
             p_featured = True, p_created_at = ''t0''\<rparr>"

definition black9 :: cart_item where
  "black9 = \<lparr>ci_product_id = ''p1'', ci_quantity = 2, ci_size = ''9'', ci_color = ''Black''\<rparr>"

definition alice_cart :: cart where
  "alice_cart = \<lparr>c_id = ''c1'', c_user_id = ''u1'', c_items = [black9], c_updated_at = ''t1''\<rparr>"

definition pending_tx :: "real payment_transaction" where
  "pending_tx = \<lparr>t_id = ''x1'', t_session_id = ''cs_1'', t_user_id = ''u1'', t_amount = 970,
                 t_currency = ''usd'', t_status = ''pending'', t_payment_status = ''initiated'',
                 t_metadata_cart_id = ''c1'', t_created_at = ''t2'', t_updated_at = None\<rparr>"

definition shop :: "real db" where
  "shop = \<lparr>users = [root, alice, bob], products = [oxford], carts = [alice_cart],
           payment_transactions = [], orders = []\<rparr>"

definition stripe_up :: "string \<Rightarrow> real stripe_checkout" where
  "stripe_up webhook_url =
     \<lparr>api_create_checkout_session = (\<lambda>rq. Inr \<lparr>cs_session_id = ''cs_1'', cs_url = ''https://pay.example/cs_1''\<rparr>),
      api_get_checkout_status =
        (\<lambda>sid. Inr \<lparr>st_status = ''complete'', st_payment_status = ''paid'', st_amount_total = 97000,
                     st_currency = ''usd''\<rparr>),
      api_handle_webhook = (\<lambda>body signature. Inr \<lparr>wr_session_id = ''cs_1'', wr_payment_status = ''paid''\<rparr>)\<rparr>"

definition stripe_down :: "string \<Rightarrow> real stripe_checkout" where
  "stripe_down webhook_url =
     \<lparr>api_create_checkout_session = (\<lambda>rq. Inl ''timeout''),
      api_get_checkout_status = (\<lambda>sid. Inl ''timeout''),
      api_handle_webhook = (\<lambda>body signature. Inl ''invalid signature'')\<rparr>"

definition paid_tx :: "real payment_transaction" where
  "paid_tx = \<lparr>t_id = ''x1'', t_session_id = ''cs_1'', t_user_id = ''u1'', t_amount = 970,
              t_currency = ''usd'', t_status = ''complete'', t_payment_status = ''paid'',
              t_metadata_cart_id = ''c1'', t_created_at = ''t2'', t_updated_at = Some ''t3''\<rparr>"

definition unit_order :: "nat \<Rightarrow> order" where
  "unit_order n = \<lparr>o_id = replicate (Suc n) CHR ''o'', o_user_id = ''u1'', o_items = [black9], o_total = 1,
                   o_status = ''confirmed'', o_payment_session_id = replicate (Suc n) CHR ''s'',
                   o_created_at = ''t4''\<rparr>"

definition busy_shop :: "real db" where
  "busy_shop = \<lparr>users = [root, alice, bob], products = [oxford], carts = [],
                payment_transactions = [], orders = map unit_order [0..<1001]\<rparr>"

definition paid_shop :: "real db" where
  "paid_shop = \<lparr>users = [root, alice, bob], products = [oxford], carts = [alice_cart],
                payment_transactions = [paid_tx], orders = []\<rparr>"

definition pending_shop :: "real db" where
  "pending_shop = \<lparr>users = [root, alice, bob], products = [oxford], carts = [alice_cart],
                   payment_transactions = [pending_tx], orders = []\<rparr>"

definition bob_item :: cart_item where
  "bob_item = \<lparr>ci_product_id = ''p1'', ci_quantity = 1, ci_size = ''8'', ci_color = ''Cognac''\<rparr>"

definition bob_cart :: cart where
  "bob_cart = \<lparr>c_id = ''c2'', c_user_id = ''u2'', c_items = [bob_item], c_updated_at = ''t1''\<rparr>"

definition paid_status :: checkout_status where
  "paid_status = \<lparr>st_status = ''complete'', st_payment_status = ''paid'', st_amount_total = 97000,
                  st_currency = ''usd''\<rparr>"

text \<open>Alice's cart holds no item.\<close>
definition bare_shop :: "real db" where
  "bare_shop = \<lparr>users = [root, alice, bob], products = [oxford],
                carts = [alice_cart\<lparr>c_items := []\<rparr>],
                payment_transactions = [pending_tx], orders = []\<rparr>"

text \<open>No cart document at all.\<close>
definition cartless_shop :: "real db" where
  "cartless_shop = \<lparr>users = [root, alice, bob], products = [oxford], carts = [],
                    payment_transactions = [pending_tx], orders = []\<rparr>"

definition two_cart_shop :: "real db" where
  "two_cart_shop = \<lparr>users = [root, alice, bob], products = [oxford], carts = [alice_cart, bob_cart],
                    payment_transactions = [pending_tx], orders = []\<rparr>"



text \<open>Alice's cart holds one entry with the quantity \<open>2\<^sup>6\<^sup>2\<close>, which fits 8 bytes; twice that
  quantity does not.\<close>

definition bulk_item :: cart_item where
  "bulk_item = \<lparr>ci_product_id = ''p1'', ci_quantity = 2 ^ 62, ci_size = ''9'', ci_color = ''Black''\<rparr>"

definition bulk_shop :: "real db" where
  "bulk_shop = \<lparr>users = [root, alice, bob], products = [oxford],
                carts = [alice_cart\<lparr>c_items := [bulk_item]\<rparr>],
                payment_transactions = [], orders = []\<rparr>"

section \<open>Facts about the collection primitives\<close>

lemma find_one_update_one:
  "(\<And>x. q x \<Longrightarrow> q (f x)) \<Longrightarrow> find_one q (update_one q f xs) = map_option f (find_one q xs)"
  by (induction xs) (auto simp: find_one_def)

lemma update_one_twice:
  "(\<And>x. q x \<Longrightarrow> q (f x)) \<Longrightarrow> update_one q g (update_one q f xs) = update_one q (g \<circ> f) xs"
  by (induction xs) auto

lemma cart_total_fold:
  "cart_total F ps items tot = foldl (fl_add F) tot (line_amounts F ps items)"
  by (induction items arbitrary: tot)
     (auto simp: line_amounts_def catalog_price_def split: option.splits)

lemma cart_total_sum: "cart_total F ps items (fl_zero F) = spec_total F ps items"
  by (simp add: cart_total_fold spec_total_def)




section \<open>The webhook\<close>

text \<open>
  Claim C8. When the provider's client rejects the payload (the signature check raises),
  the handler changes no collection and still answers the acknowledgement
  \<^verbatim>\<open>{"received": True}\<close>.
\<close>

theorem webhook_unverified:
  "api_handle_webhook (SC (webhook_url_of base_url)) body signature = Inl e \<Longrightarrow>
     stripe_webhook SC s body signature base_url now = (True, s)"
  by (simp add: stripe_webhook_def)

theorem webhook_unverified_witness:
  "api_handle_webhook (stripe_down (webhook_url_of ''http://shop/'')) ''{}'' None = Inl ''invalid signature'' \<and>
   stripe_webhook stripe_down shop ''{}'' None ''http://shop/'' ''t3'' = (True, shop)"
proof -
  have h: "api_handle_webhook (stripe_down (webhook_url_of ''http://shop/'')) ''{}'' None = Inl ''invalid signature''"
    by (simp add: stripe_down_def)
  show ?thesis
    using h webhook_unverified [of stripe_down "''http://shop/''" "''{}''" None "''invalid signature''" shop "''t3''"]
    by simp
qed

section \<open>Opening a checkout session\<close>


lemma oxford_total: "spec_total exact_arith [oxford] [black9] = 970"
  by (simp add: spec_total_def line_amounts_def catalog_price_def exact_arith_def
        black9_def oxford_def find_one_def)

lemma shop_total: "spec_total exact_arith (products shop) (c_items alice_cart) = 970"
  by (simp add: oxford_total shop_def alice_cart_def)

lemma exact_le_zero: "fl_le_zero exact_arith x \<longleftrightarrow> x \<le> 0"
  by (simp add: exact_arith_def)


text \<open>
  Claim C4. The transaction is inserted after the provider's call has returned a session.
  When that call raises (an error or a timeout of the client), the handler fails and the
  store, the transactions with it, is what it was.
\<close>

theorem create_checkout_session_provider_failure:
  assumes "find_one (\<lambda>c. c_user_id c = u_id user) (carts s) = Some c"
    and "api_create_checkout_session (SC (webhook_url_of base_url))
           (checkout_request origin_url (cart_total F (products s) (c_items c) (fl_zero F)) user c) = Inl e"
  shows "snd (create_checkout_session F SC s origin_url base_url user uuid now) = s \<and>
         (\<exists>err. fst (create_checkout_session F SC s origin_url base_url user uuid now) = Inl err) \<and>
         (c_items c \<noteq> [] \<and> \<not> fl_le_zero F (cart_total F (products s) (c_items c) (fl_zero F)) \<longrightarrow>
            fst (create_checkout_session F SC s origin_url base_url user uuid now) = Inl (ProviderException e))"
  using assms by (simp add: create_checkout_session_def Let_def)

theorem create_checkout_session_provider_failure_witness:
  "find_one (\<lambda>c. c_user_id c = u_id alice) (carts shop) = Some alice_cart \<and>
   api_create_checkout_session (stripe_down (webhook_url_of ''http://shop/''))
     (checkout_request ''http://shop''
        (cart_total exact_arith (products shop) (c_items alice_cart) (fl_zero exact_arith)) alice alice_cart)
     = Inl ''timeout'' \<and>
   c_items alice_cart \<noteq> [] \<and>
   \<not> fl_le_zero exact_arith (cart_total exact_arith (products shop) (c_items alice_cart) (fl_zero exact_arith)) \<and>
   create_checkout_session exact_arith stripe_down shop ''http://shop'' ''http://shop/'' alice ''x1'' ''t2'' =
     (Inl (ProviderException ''timeout''), shop)"
proof -
  have h1: "find_one (\<lambda>c. c_user_id c = u_id alice) (carts shop) = Some alice_cart"
    by (simp add: find_one_def shop_def alice_def alice_cart_def)
  have h2: "api_create_checkout_session (stripe_down (webhook_url_of ''http://shop/''))
     (checkout_request ''http://shop''
        (cart_total exact_arith (products shop) (c_items alice_cart) (fl_zero exact_arith)) alice alice_cart)
     = Inl ''timeout''"
    by (simp add: stripe_down_def)
  have h3: "c_items alice_cart \<noteq> []"
    by (simp add: alice_cart_def)
  have h4: "\<not> fl_le_zero exact_arith (cart_total exact_arith (products shop) (c_items alice_cart) (fl_zero exact_arith))"
    by (simp add: cart_total_sum shop_total exact_le_zero)
  from create_checkout_session_provider_failure
         [where user = alice and s = shop and c = alice_cart and SC = stripe_down and F = exact_arith
            and base_url = "''http://shop/''" and origin_url = "''http://shop''" and e = "''timeout''"
            and uuid = "''x1''" and now = "''t2''"]
       h1 h2 h3 h4
  have "create_checkout_session exact_arith stripe_down shop ''http://shop'' ''http://shop/'' alice ''x1'' ''t2'' =
     (Inl (ProviderException ''timeout''), shop)"
    by (simp add: prod_eq_iff)
  with h1 h2 h3 h4 show ?thesis by blast
qed

section \<open>What the admin statistics return\<close>

text \<open>Up to 1000 orders the handler returns the three counts and the sum of all totals.\<close>

lemma get_admin_stats_small:
  "u_role user = ''admin'' \<Longrightarrow> length (orders s) \<le> 1000 \<Longrightarrow>
     get_admin_stats s user =
       Inr \<lparr>total_products = length (products s), total_orders = length (orders s),
            total_users = length (users s), total_revenue = sum_list (map o_total (orders s))\<rparr>"
  by (simp add: get_admin_stats_def get_admin_user_def count_documents_def to_list_def)

lemma sum_unit_orders: "sum_list (map o_total (map unit_order [0..<n])) = real n"
  by (induction n) (simp_all add: unit_order_def)

text \<open>
  Claim C9. The claim asks for the sum of \<^verbatim>\<open>total\<close> over all orders. The handler reads
  the orders with \<^verbatim>\<open>to_list(1000)\<close>: in a store of 1001 orders of total 1 it counts
  1001 orders and reports a revenue of 1000.
\<close>

theorem get_admin_stats_cut_at_1000:
  "get_admin_stats busy_shop root =
     Inr \<lparr>total_products = 1, total_orders = 1001, total_users = 3, total_revenue = 1000\<rparr> \<and>
   sum_list (map o_total (orders busy_shop)) = 1001"
proof -
  have "take 1000 (map unit_order [0..<1001]) = map unit_order [0..<1000]"
    by (simp add: take_map)
  then have "sum_list (map o_total (to_list 1000 (orders busy_shop))) = 1000"
    by (simp add: to_list_def busy_shop_def sum_unit_orders del: map_map)
  moreover have "sum_list (map o_total (orders busy_shop)) = 1001"
    by (simp add: busy_shop_def sum_unit_orders del: map_map)
  moreover have "u_role root = ''admin''" by (simp add: root_def)
  moreover have "length (orders busy_shop) = 1001" "length (products busy_shop) = 1" "length (users busy_shop) = 3"
    by (simp_all add: busy_shop_def)
  ultimately show ?thesis
    by (simp add: get_admin_stats_def get_admin_user_def count_documents_def)
qed

section \<open>The webhook on a paid event\<close>

lemma mark_paid_session [simp]: "t_session_id (mark_paid now t) = t_session_id t"
  by (simp add: mark_paid_def)

lemma mark_paid_twice: "mark_paid now' \<circ> mark_paid now = mark_paid now'"
  by (rule ext) (simp add: mark_paid_def)

text \<open>
  Claim C7, as the code has it. A verified event with \<^verbatim>\<open>payment_status == "paid"\<close> sets
  \<^verbatim>\<open>status\<close>, \<^verbatim>\<open>payment_status\<close> and \<^verbatim>\<open>updated_at\<close> of the first transaction of that
  session, whether it is already paid or not. On a transaction already complete and paid
  the record keeps every field but \<^verbatim>\<open>updated_at\<close>, which takes the time of the delivery;
  two deliveries leave what the later one alone leaves.
\<close>

theorem stripe_webhook_paid:
  assumes "api_handle_webhook (SC (webhook_url_of base_url)) body signature = Inr r"
    and "wr_payment_status r = ''paid''"
  shows "stripe_webhook SC s body signature base_url now =
           (True, s\<lparr>payment_transactions :=
                       update_one (\<lambda>t. t_session_id t = wr_session_id r) (mark_paid now)
                         (payment_transactions s)\<rparr>) \<and>
         (\<forall>t. find_one (\<lambda>t. t_session_id t = wr_session_id r) (payment_transactions s) = Some t \<longrightarrow>
            find_one (\<lambda>t. t_session_id t = wr_session_id r)
              (payment_transactions (snd (stripe_webhook SC s body signature base_url now))) =
              Some (t\<lparr>t_status := ''complete'', t_payment_status := ''paid'', t_updated_at := Some now\<rparr>) \<and>
            (t_status t = ''complete'' \<and> t_payment_status t = ''paid'' \<longrightarrow>
               find_one (\<lambda>t. t_session_id t = wr_session_id r)
                 (payment_transactions (snd (stripe_webhook SC s body signature base_url now))) =
                 Some (t\<lparr>t_updated_at := Some now\<rparr>))) \<and>
         stripe_webhook SC (snd (stripe_webhook SC s body signature base_url now)) body signature base_url now' =
           stripe_webhook SC s body signature base_url now'"
proof -
  let ?q = "\<lambda>t. t_session_id t = wr_session_id r"
  have run: "\<And>s now. stripe_webhook SC s body signature base_url now =
           (True, s\<lparr>payment_transactions := update_one ?q (mark_paid now) (payment_transactions s)\<rparr>)"
    using assms by (simp add: stripe_webhook_def)
  have found: "find_one ?q (update_one ?q (mark_paid now) (payment_transactions s)) =
                 map_option (mark_paid now) (find_one ?q (payment_transactions s))"
    by (rule find_one_update_one) simp
  have again: "update_one ?q (mark_paid now') (update_one ?q (mark_paid now) (payment_transactions s)) =
                 update_one ?q (mark_paid now') (payment_transactions s)"
    by (simp add: update_one_twice mark_paid_twice)
  show ?thesis
    by (simp add: run found again) (simp add: mark_paid_def)
qed

theorem stripe_webhook_paid_witness:
  "api_handle_webhook (stripe_up (webhook_url_of ''http://shop/'')) ''{}'' (Some ''sig'') =
     Inr \<lparr>wr_session_id = ''cs_1'', wr_payment_status = ''paid''\<rparr> \<and>
   stripe_webhook stripe_up pending_shop ''{}'' (Some ''sig'') ''http://shop/'' ''t3'' = (True, paid_shop) \<and>
   stripe_webhook stripe_up paid_shop ''{}'' (Some ''sig'') ''http://shop/'' ''t3'' = (True, paid_shop)"
proof -
  let ?r = "\<lparr>wr_session_id = ''cs_1'', wr_payment_status = ''paid''\<rparr>"
  have h1: "api_handle_webhook (stripe_up (webhook_url_of ''http://shop/'')) ''{}'' (Some ''sig'') = Inr ?r"
    by (simp add: stripe_up_def)
  have h2: "wr_payment_status ?r = ''paid''"
    by simp
  note T = stripe_webhook_paid [where SC = stripe_up and base_url = "''http://shop/''" and body = "''{}''"
      and signature = "Some ''sig''" and r = ?r and now = "''t3''", OF h1 h2]
  from T [of pending_shop]
  have a: "stripe_webhook stripe_up pending_shop ''{}'' (Some ''sig'') ''http://shop/'' ''t3'' = (True, paid_shop)"
    by (simp add: pending_shop_def paid_shop_def pending_tx_def paid_tx_def mark_paid_def)
  from T [of paid_shop]
  have b: "stripe_webhook stripe_up paid_shop ''{}'' (Some ''sig'') ''http://shop/'' ''t3'' = (True, paid_shop)"
    by (simp add: paid_shop_def paid_tx_def mark_paid_def)
  from h1 a b show ?thesis by blast
qed

text \<open>
  Claim C7 as stated says the stored record is unchanged by a second delivery. A record
  paid at \<open>t3\<close> and delivered again at \<open>t9\<close> is not the record it was.
\<close>

theorem stripe_webhook_redelivery_counterexample:
  "api_handle_webhook (stripe_up (webhook_url_of ''http://shop/'')) ''{}'' (Some ''sig'') =
     Inr \<lparr>wr_session_id = ''cs_1'', wr_payment_status = ''paid''\<rparr> \<and>
   find_one (\<lambda>t. t_session_id t = ''cs_1'') (payment_transactions paid_shop) = Some paid_tx \<and>
   t_status paid_tx = ''complete'' \<and> t_payment_status paid_tx = ''paid'' \<and>
   find_one (\<lambda>t. t_session_id t = ''cs_1'')
     (payment_transactions (snd (stripe_webhook stripe_up paid_shop ''{}'' (Some ''sig'') ''http://shop/'' ''t9'')))
     \<noteq> Some paid_tx"
  by (simp add: stripe_webhook_def stripe_up_def paid_shop_def paid_tx_def mark_paid_def find_one_def)

section \<open>Polling the status of a session\<close>

lemma create_order_transactions [simp]:
  "payment_transactions (create_order s user status session_id uuid now) = payment_transactions s"
  by (simp add: create_order_def split: option.splits)

lemma get_checkout_status_transition:
  assumes "api_get_checkout_status (SC (webhook_url_of base_url)) session_id = Inr status"
    and "st_payment_status status = ''paid''"
    and "find_one (\<lambda>t. t_session_id t = session_id) (payment_transactions s) = Some t"
    and "t_payment_status t \<noteq> ''paid''"
  shows "get_checkout_status SC s session_id base_url user uuid now_updated now =
           (Inr status,
            create_order
              (s\<lparr>payment_transactions :=
                   update_one (\<lambda>t. t_session_id t = session_id) (mark_paid now_updated) (payment_transactions s)\<rparr>)
              user status session_id uuid now)"
  using assms by (simp add: get_checkout_status_def Let_def)

lemma get_checkout_status_read:
  assumes "api_get_checkout_status (SC (webhook_url_of base_url)) session_id = Inr status"
    and "find_one (\<lambda>t. t_session_id t = session_id) (payment_transactions s) = None \<or>
         (\<exists>t. find_one (\<lambda>t. t_session_id t = session_id) (payment_transactions s) = Some t \<and>
              t_payment_status t = ''paid'')"
  shows "get_checkout_status SC s session_id base_url user uuid now_updated now = (Inr status, s)"
  using assms by (auto simp: get_checkout_status_def Let_def)

lemma get_checkout_status_settled:
  assumes "api_get_checkout_status (SC (webhook_url_of base_url)) session_id = Inr status"
    and "st_payment_status status = ''paid''"
  shows "find_one (\<lambda>t. t_session_id t = session_id)
           (payment_transactions (snd (get_checkout_status SC s session_id base_url user uuid now_updated now))) = None \<or>
         (\<exists>t. find_one (\<lambda>t. t_session_id t = session_id)
                 (payment_transactions (snd (get_checkout_status SC s session_id base_url user uuid now_updated now))) = Some t \<and>
              t_payment_status t = ''paid'')"
proof (cases "find_one (\<lambda>t. t_session_id t = session_id) (payment_transactions s)")
  case None
  with assms show ?thesis by (simp add: get_checkout_status_def Let_def)
next
  case (Some t)
  show ?thesis
  proof (cases "t_payment_status t = ''paid''")
    case True
    with Some assms show ?thesis by (simp add: get_checkout_status_def Let_def)
  next
    case False
    have "find_one (\<lambda>t. t_session_id t = session_id)
            (update_one (\<lambda>t. t_session_id t = session_id) (mark_paid now_updated) (payment_transactions s)) =
          Some (mark_paid now_updated t)"
      using Some by (simp add: find_one_update_one)
    then show ?thesis
      using get_checkout_status_transition
              [where SC = SC and base_url = base_url, OF assms Some False]
      by (simp add: mark_paid_def)
  qed
qed

lemma orders_create_order:
  "orders (create_order s user status session_id uuid now) =
     (case find_one (\<lambda>c. c_user_id c = u_id user) (carts s) of
        None \<Rightarrow> orders s
      | Some c \<Rightarrow> if c_items c = [] then orders s
                  else orders s @ [new_order uuid user c status session_id now])"
  by (simp add: create_order_def insert_one_def split: option.splits)

lemma carts_create_order:
  "carts (create_order s user status session_id uuid now) =
     (case find_one (\<lambda>c. c_user_id c = u_id user) (carts s) of
        None \<Rightarrow> carts s
      | Some c \<Rightarrow> if c_items c = [] then carts s
                  else update_one (\<lambda>c. c_user_id c = u_id user) (\<lambda>c. c\<lparr>c_items := []\<rparr>) (carts s))"
  by (simp add: create_order_def split: option.splits)

text \<open>
  Claim C1, as the code has it. When the provider reports the session paid, the first poll
  appends one order exactly when the session's transaction is stored, is not yet paid and
  the caller's cart holds an item, and appends none otherwise; the second poll returns the
  same status fields and leaves the store as the first poll left it.
\<close>

theorem get_checkout_status_twice:
  assumes "api_get_checkout_status (SC (webhook_url_of base_url)) session_id = Inr status"
    and "st_payment_status status = ''paid''"
  shows "fst (get_checkout_status SC s session_id base_url user uuid now_updated now) = Inr status \<and>
         get_checkout_status SC (snd (get_checkout_status SC s session_id base_url user uuid now_updated now))
             session_id base_url user uuid' now_updated' now' =
           (Inr status, snd (get_checkout_status SC s session_id base_url user uuid now_updated now)) \<and>
         orders (snd (get_checkout_status SC s session_id base_url user uuid now_updated now)) =
           (case (find_one (\<lambda>t. t_session_id t = session_id) (payment_transactions s),
                  find_one (\<lambda>c. c_user_id c = u_id user) (carts s)) of
              (Some t, Some c) \<Rightarrow>
                if t_payment_status t \<noteq> ''paid'' \<and> c_items c \<noteq> []
                then orders s @ [new_order uuid user c status session_id now]
                else orders s
            | _ \<Rightarrow> orders s) \<and>
         length (orders (snd (get_checkout_status SC s session_id base_url user uuid now_updated now)))
           \<le> Suc (length (orders s))"
proof -
  let ?R = "get_checkout_status SC s session_id base_url user uuid now_updated now"
  have first: "fst ?R = Inr status"
    using assms(1) by (simp add: get_checkout_status_def Let_def split: option.splits)
  have second: "get_checkout_status SC (snd ?R) session_id base_url user uuid' now_updated' now' =
                  (Inr status, snd ?R)"
    by (rule get_checkout_status_read [where SC = SC and base_url = base_url, OF assms(1)
          get_checkout_status_settled [where SC = SC and base_url = base_url, OF assms]])
  have ord: "orders (snd ?R) =
           (case (find_one (\<lambda>t. t_session_id t = session_id) (payment_transactions s),
                  find_one (\<lambda>c. c_user_id c = u_id user) (carts s)) of
              (Some t, Some c) \<Rightarrow>
                if t_payment_status t \<noteq> ''paid'' \<and> c_items c \<noteq> []
                then orders s @ [new_order uuid user c status session_id now]
                else orders s
            | _ \<Rightarrow> orders s)"
    using assms by (simp add: get_checkout_status_def Let_def orders_create_order split: option.splits)
  have "length (orders (snd ?R)) \<le> Suc (length (orders s))"
    unfolding ord by (simp split: option.splits)
  with first second ord show ?thesis by blast
qed

lemma stripe_up_status:
  "api_get_checkout_status (stripe_up (webhook_url_of b)) sid = Inr paid_status"
  by (simp add: stripe_up_def paid_status_def)

lemma paid_status_paid: "st_payment_status paid_status = ''paid''"
  by (simp add: paid_status_def)

theorem get_checkout_status_twice_witness:
  "api_get_checkout_status (stripe_up (webhook_url_of ''http://shop/'')) ''cs_1'' = Inr paid_status \<and>
   st_payment_status paid_status = ''paid'' \<and>
   get_checkout_status stripe_up
       (snd (get_checkout_status stripe_up pending_shop ''cs_1'' ''http://shop/'' alice ''o1'' ''t3'' ''t4''))
       ''cs_1'' ''http://shop/'' alice ''o2'' ''t5'' ''t6'' =
     (Inr paid_status, snd (get_checkout_status stripe_up pending_shop ''cs_1'' ''http://shop/'' alice ''o1'' ''t3'' ''t4'')) \<and>
   orders (snd (get_checkout_status stripe_up pending_shop ''cs_1'' ''http://shop/'' alice ''o1'' ''t3'' ''t4'')) =
     [new_order ''o1'' alice alice_cart paid_status ''cs_1'' ''t4'']"
proof -
  note T = get_checkout_status_twice [where SC = stripe_up and base_url = "''http://shop/''"
      and session_id = "''cs_1''" and status = paid_status and s = pending_shop and user = alice
      and uuid = "''o1''" and now_updated = "''t3''" and now = "''t4''"
      and uuid' = "''o2''" and now_updated' = "''t5''" and now' = "''t6''",
      OF stripe_up_status paid_status_paid]
  have tx: "find_one (\<lambda>t. t_session_id t = ''cs_1'') (payment_transactions pending_shop) = Some pending_tx"
    by (simp add: find_one_def pending_shop_def pending_tx_def)
  have ct: "find_one (\<lambda>c. c_user_id c = u_id alice) (carts pending_shop) = Some alice_cart"
    by (simp add: find_one_def pending_shop_def alice_cart_def alice_def)
  have np: "t_payment_status pending_tx \<noteq> ''paid''" "c_items alice_cart \<noteq> []" "orders pending_shop = []"
    by (simp_all add: pending_tx_def alice_cart_def pending_shop_def)
  from T show ?thesis
    by (simp add: tx ct np stripe_up_status paid_status_paid)
qed

text \<open>
  Claim C1 as stated promises exactly one order. With a pending transaction and a cart
  without items, two polls of a paid session leave no order.
\<close>

theorem get_checkout_status_twice_counterexample:
  "api_get_checkout_status (stripe_up (webhook_url_of ''http://shop/'')) ''cs_1'' = Inr paid_status \<and>
   st_payment_status paid_status = ''paid'' \<and>
   find_one (\<lambda>t. t_session_id t = ''cs_1'') (payment_transactions bare_shop) = Some pending_tx \<and>
   t_payment_status pending_tx = ''initiated'' \<and>
   length (orders (snd (get_checkout_status stripe_up
       (snd (get_checkout_status stripe_up bare_shop ''cs_1'' ''http://shop/'' alice ''o1'' ''t3'' ''t4''))
       ''cs_1'' ''http://shop/'' alice ''o2'' ''t5'' ''t6''))) \<noteq> length (orders bare_shop) + 1"
proof -
  have tx: "find_one (\<lambda>t. t_session_id t = ''cs_1'') (payment_transactions bare_shop) = Some pending_tx"
    by (simp add: find_one_def bare_shop_def pending_tx_def)
  have np: "t_payment_status pending_tx = ''initiated''"
    by (simp add: pending_tx_def)
  have one: "get_checkout_status stripe_up bare_shop ''cs_1'' ''http://shop/'' alice ''o1'' ''t3'' ''t4'' =
               (Inr paid_status, bare_shop\<lparr>payment_transactions := [mark_paid ''t3'' pending_tx]\<rparr>)"
    by (simp add: get_checkout_status_def Let_def stripe_up_status paid_status_paid tx np create_order_def)
       (simp add: bare_shop_def find_one_def alice_def alice_cart_def pending_tx_def paid_status_def)
  have two: "get_checkout_status stripe_up (bare_shop\<lparr>payment_transactions := [mark_paid ''t3'' pending_tx]\<rparr>)
               ''cs_1'' ''http://shop/'' alice ''o2'' ''t5'' ''t6'' =
               (Inr paid_status, bare_shop\<lparr>payment_transactions := [mark_paid ''t3'' pending_tx]\<rparr>)"
    by (simp add: get_checkout_status_def Let_def stripe_up_status paid_status_paid)
       (simp add: find_one_def mark_paid_def pending_tx_def paid_status_def)
  show ?thesis
    by (simp add: stripe_up_status paid_status_paid tx np one two)
qed

text \<open>
  Claim C2, as the code has it. On a paid session whose transaction is not yet paid the poll
  marks the transaction complete and paid. If the caller's cart holds an item, it appends
  an order with status confirmed, the cart's items and the total
  \<^verbatim>\<open>amount_total / 100\<close>, and empties that cart; if the caller has no cart or an empty
  one, it appends no order and leaves the carts alone.
\<close>

theorem get_checkout_status_transition_effect:
  assumes "api_get_checkout_status (SC (webhook_url_of base_url)) session_id = Inr status"
    and "st_payment_status status = ''paid''"
    and "find_one (\<lambda>t. t_session_id t = session_id) (payment_transactions s) = Some t"
    and "t_payment_status t \<noteq> ''paid''"
  shows "fst (get_checkout_status SC s session_id base_url user uuid now_updated now) = Inr status \<and>
         find_one (\<lambda>t. t_session_id t = session_id)
           (payment_transactions (snd (get_checkout_status SC s session_id base_url user uuid now_updated now))) =
           Some (t\<lparr>t_status := ''complete'', t_payment_status := ''paid'', t_updated_at := Some now_updated\<rparr>) \<and>
         (\<forall>c. find_one (\<lambda>c. c_user_id c = u_id user) (carts s) = Some c \<and> c_items c \<noteq> [] \<longrightarrow>
            orders (snd (get_checkout_status SC s session_id base_url user uuid now_updated now)) =
              orders s @ [\<lparr>o_id = uuid, o_user_id = u_id user, o_items = c_items c,
                           o_total = real_of_int (st_amount_total status) / 100, o_status = ''confirmed'',
                           o_payment_session_id = session_id, o_created_at = now\<rparr>] \<and>
            find_one (\<lambda>c. c_user_id c = u_id user)
              (carts (snd (get_checkout_status SC s session_id base_url user uuid now_updated now))) =
              Some (c\<lparr>c_items := []\<rparr>)) \<and>
         (find_one (\<lambda>c. c_user_id c = u_id user) (carts s) = None \<or>
          (\<exists>c. find_one (\<lambda>c. c_user_id c = u_id user) (carts s) = Some c \<and> c_items c = []) \<longrightarrow>
            orders (snd (get_checkout_status SC s session_id base_url user uuid now_updated now)) = orders s \<and>
            carts (snd (get_checkout_status SC s session_id base_url user uuid now_updated now)) = carts s)"
proof -
  let ?s' = "snd (get_checkout_status SC s session_id base_url user uuid now_updated now)"
  note run = get_checkout_status_transition [where SC = SC and base_url = base_url, OF assms]
  have marked: "find_one (\<lambda>t. t_session_id t = session_id) (payment_transactions ?s') =
                  Some (t\<lparr>t_status := ''complete'', t_payment_status := ''paid'', t_updated_at := Some now_updated\<rparr>)"
    using assms(3) by (simp add: run find_one_update_one) (simp add: mark_paid_def)
  have emptied: "find_one (\<lambda>c. c_user_id c = u_id user)
                   (update_one (\<lambda>c. c_user_id c = u_id user) (\<lambda>c. c\<lparr>c_items := []\<rparr>) (carts s)) =
                 map_option (\<lambda>c. c\<lparr>c_items := []\<rparr>) (find_one (\<lambda>c. c_user_id c = u_id user) (carts s))"
    by (rule find_one_update_one) simp
  have ordered: "\<forall>c. find_one (\<lambda>c. c_user_id c = u_id user) (carts s) = Some c \<and> c_items c \<noteq> [] \<longrightarrow>
            orders ?s' =
              orders s @ [\<lparr>o_id = uuid, o_user_id = u_id user, o_items = c_items c,
                           o_total = real_of_int (st_amount_total status) / 100, o_status = ''confirmed'',
                           o_payment_session_id = session_id, o_created_at = now\<rparr>] \<and>
            find_one (\<lambda>c. c_user_id c = u_id user) (carts ?s') = Some (c\<lparr>c_items := []\<rparr>)"
    by (simp add: run orders_create_order carts_create_order emptied new_order_def)
  have skipped: "find_one (\<lambda>c. c_user_id c = u_id user) (carts s) = None \<or>
          (\<exists>c. find_one (\<lambda>c. c_user_id c = u_id user) (carts s) = Some c \<and> c_items c = []) \<longrightarrow>
            orders ?s' = orders s \<and> carts ?s' = carts s"
    by (auto simp: run orders_create_order carts_create_order)
  have "fst (get_checkout_status SC s session_id base_url user uuid now_updated now) = Inr status"
    by (simp add: run)
  with marked ordered skipped show ?thesis by blast
qed

lemma find_one_map:
  "(\<And>x. q (f x) = q x) \<Longrightarrow> find_one q (map f xs) = map_option f (find_one q xs)"
  by (induction xs) (auto simp: find_one_def)

lemma find_cart_other:
  "(\<And>c. c_user_id (f c) = c_user_id c) \<Longrightarrow> v \<noteq> u \<Longrightarrow>
     find_one (\<lambda>c. c_user_id c = v) (update_one (\<lambda>c. c_user_id c = u) f xs) =
     find_one (\<lambda>c. c_user_id c = v) xs"
  by (induction xs) (auto simp: find_one_def)

theorem get_checkout_status_transition_effect_witness:
  "api_get_checkout_status (stripe_up (webhook_url_of ''http://shop/'')) ''cs_1'' = Inr paid_status \<and>
   st_payment_status paid_status = ''paid'' \<and>
   find_one (\<lambda>t. t_session_id t = ''cs_1'') (payment_transactions pending_shop) = Some pending_tx \<and>
   t_payment_status pending_tx \<noteq> ''paid'' \<and>
   find_one (\<lambda>c. c_user_id c = u_id alice) (carts pending_shop) = Some alice_cart \<and>
   c_items alice_cart \<noteq> [] \<and>
   get_checkout_status stripe_up pending_shop ''cs_1'' ''http://shop/'' alice ''o1'' ''t3'' ''t4'' =
     (Inr paid_status,
      \<lparr>users = [root, alice, bob], products = [oxford],
       carts = [alice_cart\<lparr>c_items := []\<rparr>],
       payment_transactions = [paid_tx],
       orders = [\<lparr>o_id = ''o1'', o_user_id = ''u1'', o_items = [black9], o_total = 970,
                  o_status = ''confirmed'', o_payment_session_id = ''cs_1'', o_created_at = ''t4''\<rparr>]\<rparr>)"
proof -
  have tx: "find_one (\<lambda>t. t_session_id t = ''cs_1'') (payment_transactions pending_shop) = Some pending_tx"
    by (simp add: find_one_def pending_shop_def pending_tx_def)
  have np: "t_payment_status pending_tx \<noteq> ''paid''"
    by (simp add: pending_tx_def)
  have ct: "find_one (\<lambda>c. c_user_id c = u_id alice) (carts pending_shop) = Some alice_cart"
    by (simp add: find_one_def pending_shop_def alice_cart_def alice_def)
  have ne: "c_items alice_cart \<noteq> []"
    by (simp add: alice_cart_def)
  note T = get_checkout_status_transition_effect [where SC = stripe_up and base_url = "''http://shop/''"
      and session_id = "''cs_1''" and status = paid_status and s = pending_shop and user = alice
      and uuid = "''o1''" and now_updated = "''t3''" and now = "''t4''" and t = pending_tx,
      OF stripe_up_status paid_status_paid tx np]
  from T ct ne
  have o: "orders (snd (get_checkout_status stripe_up pending_shop ''cs_1'' ''http://shop/'' alice ''o1'' ''t3'' ''t4'')) =
             [\<lparr>o_id = ''o1'', o_user_id = ''u1'', o_items = [black9], o_total = 970,
                  o_status = ''confirmed'', o_payment_session_id = ''cs_1'', o_created_at = ''t4''\<rparr>]"
    by (simp add: pending_shop_def alice_def alice_cart_def paid_status_def)
  have r: "get_checkout_status stripe_up pending_shop ''cs_1'' ''http://shop/'' alice ''o1'' ''t3'' ''t4'' =
     (Inr paid_status,
      \<lparr>users = [root, alice, bob], products = [oxford],
       carts = [alice_cart\<lparr>c_items := []\<rparr>],
       payment_transactions = [paid_tx],
       orders = orders (snd (get_checkout_status stripe_up pending_shop ''cs_1'' ''http://shop/'' alice ''o1'' ''t3'' ''t4''))\<rparr>)"
    by (simp add: get_checkout_status_def Let_def stripe_up_status paid_status_paid tx np create_order_def ct ne)
       (simp add: pending_shop_def alice_def alice_cart_def mark_paid_def pending_tx_def paid_tx_def paid_status_def)
  show ?thesis
    using r unfolding o by (simp add: stripe_up_status paid_status_paid tx np ct ne)
qed

text \<open>
  Claim C2 as stated promises an order whose total is the provider's amount. Without a cart
  the transaction is marked and no order appears; with a cart the provider reports
  97000 and the order's total is 970.
\<close>

theorem get_checkout_status_transition_effect_counterexample:
  "api_get_checkout_status (stripe_up (webhook_url_of ''http://shop/'')) ''cs_1'' = Inr paid_status \<and>
   st_payment_status paid_status = ''paid'' \<and>
   find_one (\<lambda>t. t_session_id t = ''cs_1'') (payment_transactions cartless_shop) = Some pending_tx \<and>
   t_payment_status pending_tx \<noteq> ''paid'' \<and>
   payment_transactions
     (snd (get_checkout_status stripe_up cartless_shop ''cs_1'' ''http://shop/'' alice ''o1'' ''t3'' ''t4'')) = [paid_tx] \<and>
   orders (snd (get_checkout_status stripe_up cartless_shop ''cs_1'' ''http://shop/'' alice ''o1'' ''t3'' ''t4'')) = [] \<and>
   map o_total
     (orders (snd (get_checkout_status stripe_up pending_shop ''cs_1'' ''http://shop/'' alice ''o1'' ''t3'' ''t4''))) = [970] \<and>
   st_amount_total paid_status = 97000"
proof -
  have tx: "find_one (\<lambda>t. t_session_id t = ''cs_1'') (payment_transactions cartless_shop) = Some pending_tx"
    by (simp add: find_one_def cartless_shop_def pending_tx_def)
  have tx': "find_one (\<lambda>t. t_session_id t = ''cs_1'') (payment_transactions pending_shop) = Some pending_tx"
    by (simp add: find_one_def pending_shop_def pending_tx_def)
  have np: "t_payment_status pending_tx \<noteq> ''paid''"
    by (simp add: pending_tx_def)
  have a: "get_checkout_status stripe_up cartless_shop ''cs_1'' ''http://shop/'' alice ''o1'' ''t3'' ''t4'' =
             (Inr paid_status, cartless_shop\<lparr>payment_transactions := [paid_tx]\<rparr>)"
    by (simp add: get_checkout_status_def Let_def stripe_up_status paid_status_paid tx np create_order_def)
       (simp add: cartless_shop_def find_one_def mark_paid_def pending_tx_def paid_tx_def paid_status_def)
  have b: "orders (snd (get_checkout_status stripe_up pending_shop ''cs_1'' ''http://shop/'' alice ''o1'' ''t3'' ''t4'')) =
             [new_order ''o1'' alice alice_cart paid_status ''cs_1'' ''t4'']"
    by (simp add: get_checkout_status_def Let_def stripe_up_status paid_status_paid tx' np orders_create_order)
       (simp add: pending_shop_def find_one_def alice_def alice_cart_def)
  show ?thesis
    by (simp add: stripe_up_status paid_status_paid tx np a b)
       (simp add: cartless_shop_def new_order_def paid_status_def)
qed

text \<open>
  Claim C10, as the code has it. The poll finds the transaction by the session alone and
  never reads its \<^verbatim>\<open>user_id\<close>: whoever the caller is, the transaction of the session is
  marked complete and paid, and replacing the \<^verbatim>\<open>user_id\<close> in every stored transaction
  changes neither the answer nor the orders nor the carts of the outcome. If the caller's
  cart holds an item, the order appended is the caller's, made
  of the caller's items, and the caller's cart is the one emptied; if the caller has no
  cart or an empty one, no order is appended. The cart of every other user is found as
  it was.
\<close>

theorem get_checkout_status_acts_on_caller:
  assumes "api_get_checkout_status (SC (webhook_url_of base_url)) session_id = Inr status"
    and "st_payment_status status = ''paid''"
    and "find_one (\<lambda>t. t_session_id t = session_id) (payment_transactions s) = Some t"
    and "t_payment_status t \<noteq> ''paid''"
  shows "fst (get_checkout_status SC s session_id base_url user uuid now_updated now) = Inr status \<and>
         payment_transactions (snd (get_checkout_status SC s session_id base_url user uuid now_updated now)) =
           update_one (\<lambda>t. t_session_id t = session_id)
             (\<lambda>t. t\<lparr>t_status := ''complete'', t_payment_status := ''paid'', t_updated_at := Some now_updated\<rparr>)
             (payment_transactions s) \<and>
         find_one (\<lambda>t. t_session_id t = session_id)
           (payment_transactions (snd (get_checkout_status SC s session_id base_url user uuid now_updated now))) =
           Some (t\<lparr>t_status := ''complete'', t_payment_status := ''paid'', t_updated_at := Some now_updated\<rparr>) \<and>
         (\<forall>c. find_one (\<lambda>c. c_user_id c = u_id user) (carts s) = Some c \<and> c_items c \<noteq> [] \<longrightarrow>
            (\<exists>ord. orders (snd (get_checkout_status SC s session_id base_url user uuid now_updated now)) =
                     orders s @ [ord] \<and>
                   o_user_id ord = u_id user \<and> o_items ord = c_items c) \<and>
            carts (snd (get_checkout_status SC s session_id base_url user uuid now_updated now)) =
              update_one (\<lambda>c. c_user_id c = u_id user) (\<lambda>c. c\<lparr>c_items := []\<rparr>) (carts s)) \<and>
         (find_one (\<lambda>c. c_user_id c = u_id user) (carts s) = None \<or>
          (\<exists>c. find_one (\<lambda>c. c_user_id c = u_id user) (carts s) = Some c \<and> c_items c = []) \<longrightarrow>
            orders (snd (get_checkout_status SC s session_id base_url user uuid now_updated now)) = orders s \<and>
            carts (snd (get_checkout_status SC s session_id base_url user uuid now_updated now)) = carts s) \<and>
         (\<forall>v. v \<noteq> u_id user \<longrightarrow>
            find_one (\<lambda>c. c_user_id c = v)
              (carts (snd (get_checkout_status SC s session_id base_url user uuid now_updated now))) =
            find_one (\<lambda>c. c_user_id c = v) (carts s)) \<and>
         (\<forall>v. fst (get_checkout_status SC
                   (s\<lparr>payment_transactions := map (\<lambda>t. t\<lparr>t_user_id := v\<rparr>) (payment_transactions s)\<rparr>)
                   session_id base_url user uuid now_updated now) =
               fst (get_checkout_status SC s session_id base_url user uuid now_updated now) \<and>
              orders (snd (get_checkout_status SC
                   (s\<lparr>payment_transactions := map (\<lambda>t. t\<lparr>t_user_id := v\<rparr>) (payment_transactions s)\<rparr>)
                   session_id base_url user uuid now_updated now)) =
               orders (snd (get_checkout_status SC s session_id base_url user uuid now_updated now)) \<and>
              carts (snd (get_checkout_status SC
                   (s\<lparr>payment_transactions := map (\<lambda>t. t\<lparr>t_user_id := v\<rparr>) (payment_transactions s)\<rparr>)
                   session_id base_url user uuid now_updated now)) =
               carts (snd (get_checkout_status SC s session_id base_url user uuid now_updated now)))"
proof -
  let ?s' = "snd (get_checkout_status SC s session_id base_url user uuid now_updated now)"
  note run = get_checkout_status_transition [where SC = SC and base_url = base_url, OF assms]
  have answer: "fst (get_checkout_status SC s session_id base_url user uuid now_updated now) = Inr status"
    by (simp add: run)
  have written: "payment_transactions ?s' =
           update_one (\<lambda>t. t_session_id t = session_id)
             (\<lambda>t. t\<lparr>t_status := ''complete'', t_payment_status := ''paid'', t_updated_at := Some now_updated\<rparr>)
             (payment_transactions s)"
    by (simp add: run mark_paid_def [abs_def])
  have marked: "find_one (\<lambda>t. t_session_id t = session_id) (payment_transactions ?s') =
           Some (t\<lparr>t_status := ''complete'', t_payment_status := ''paid'', t_updated_at := Some now_updated\<rparr>)"
    using assms(3) by (simp add: run find_one_update_one) (simp add: mark_paid_def)
  have created: "\<forall>c. find_one (\<lambda>c. c_user_id c = u_id user) (carts s) = Some c \<and> c_items c \<noteq> [] \<longrightarrow>
            (\<exists>ord. orders ?s' = orders s @ [ord] \<and> o_user_id ord = u_id user \<and> o_items ord = c_items c) \<and>
            carts ?s' = update_one (\<lambda>c. c_user_id c = u_id user) (\<lambda>c. c\<lparr>c_items := []\<rparr>) (carts s)"
    by (simp add: run orders_create_order carts_create_order new_order_def)
  have skipped: "find_one (\<lambda>c. c_user_id c = u_id user) (carts s) = None \<or>
          (\<exists>c. find_one (\<lambda>c. c_user_id c = u_id user) (carts s) = Some c \<and> c_items c = []) \<longrightarrow>
            orders ?s' = orders s \<and> carts ?s' = carts s"
    by (auto simp: run orders_create_order carts_create_order)
  have others: "\<forall>v. v \<noteq> u_id user \<longrightarrow>
            find_one (\<lambda>c. c_user_id c = v) (carts ?s') = find_one (\<lambda>c. c_user_id c = v) (carts s)"
    by (auto simp: run carts_create_order find_cart_other split: option.splits)
  have blind: "\<forall>v. fst (get_checkout_status SC
                   (s\<lparr>payment_transactions := map (\<lambda>t. t\<lparr>t_user_id := v\<rparr>) (payment_transactions s)\<rparr>)
                   session_id base_url user uuid now_updated now) =
                 fst (get_checkout_status SC s session_id base_url user uuid now_updated now) \<and>
              orders (snd (get_checkout_status SC
                   (s\<lparr>payment_transactions := map (\<lambda>t. t\<lparr>t_user_id := v\<rparr>) (payment_transactions s)\<rparr>)
                   session_id base_url user uuid now_updated now)) = orders ?s' \<and>
              carts (snd (get_checkout_status SC
                   (s\<lparr>payment_transactions := map (\<lambda>t. t\<lparr>t_user_id := v\<rparr>) (payment_transactions s)\<rparr>)
                   session_id base_url user uuid now_updated now)) = carts ?s'"
  proof
    fix v
    let ?sv = "s\<lparr>payment_transactions := map (\<lambda>t. t\<lparr>t_user_id := v\<rparr>) (payment_transactions s)\<rparr>"
    have f: "find_one (\<lambda>t. t_session_id t = session_id) (payment_transactions ?sv) = Some (t\<lparr>t_user_id := v\<rparr>)"
      using assms(3) by (simp add: find_one_map)
    have n: "t_payment_status (t\<lparr>t_user_id := v\<rparr>) \<noteq> ''paid''"
      using assms(4) by simp
    note runv = get_checkout_status_transition [where SC = SC and base_url = base_url, OF assms(1,2) f n]
    show "fst (get_checkout_status SC ?sv session_id base_url user uuid now_updated now) =
            fst (get_checkout_status SC s session_id base_url user uuid now_updated now) \<and>
          orders (snd (get_checkout_status SC ?sv session_id base_url user uuid now_updated now)) = orders ?s' \<and>
          carts (snd (get_checkout_status SC ?sv session_id base_url user uuid now_updated now)) = carts ?s'"
      by (simp add: run runv orders_create_order carts_create_order split: option.splits)
  qed
  from answer written marked created skipped others blind show ?thesis by blast
qed

theorem get_checkout_status_acts_on_caller_witness:
  "api_get_checkout_status (stripe_up (webhook_url_of ''http://shop/'')) ''cs_1'' = Inr paid_status \<and>
   st_payment_status paid_status = ''paid'' \<and>
   find_one (\<lambda>t. t_session_id t = ''cs_1'') (payment_transactions two_cart_shop) = Some pending_tx \<and>
   t_payment_status pending_tx \<noteq> ''paid'' \<and>
   t_user_id pending_tx \<noteq> u_id bob \<and>
   find_one (\<lambda>c. c_user_id c = u_id bob) (carts two_cart_shop) = Some bob_cart \<and>
   c_items bob_cart \<noteq> [] \<and>
   map o_user_id
     (orders (snd (get_checkout_status stripe_up two_cart_shop ''cs_1'' ''http://shop/'' bob ''o1'' ''t3'' ''t4''))) =
     [u_id bob] \<and>
   map o_items
     (orders (snd (get_checkout_status stripe_up two_cart_shop ''cs_1'' ''http://shop/'' bob ''o1'' ''t3'' ''t4''))) =
     [c_items bob_cart] \<and>
   carts (snd (get_checkout_status stripe_up two_cart_shop ''cs_1'' ''http://shop/'' bob ''o1'' ''t3'' ''t4'')) =
     [alice_cart, bob_cart\<lparr>c_items := []\<rparr>] \<and>
   payment_transactions
     (snd (get_checkout_status stripe_up two_cart_shop ''cs_1'' ''http://shop/'' bob ''o1'' ''t3'' ''t4'')) =
     [paid_tx]"
proof -
  let ?s' = "snd (get_checkout_status stripe_up two_cart_shop ''cs_1'' ''http://shop/'' bob ''o1'' ''t3'' ''t4'')"
  have tx: "find_one (\<lambda>t. t_session_id t = ''cs_1'') (payment_transactions two_cart_shop) = Some pending_tx"
    by (simp add: find_one_def two_cart_shop_def pending_tx_def)
  have np: "t_payment_status pending_tx \<noteq> ''paid''" "t_user_id pending_tx \<noteq> u_id bob"
    by (simp_all add: pending_tx_def bob_def)
  have ct: "find_one (\<lambda>c. c_user_id c = u_id bob) (carts two_cart_shop) = Some bob_cart"
    by (simp add: find_one_def two_cart_shop_def alice_cart_def bob_cart_def bob_def)
  have ne: "c_items bob_cart \<noteq> []"
    by (simp add: bob_cart_def)
  note T = get_checkout_status_acts_on_caller [where SC = stripe_up and base_url = "''http://shop/''"
      and session_id = "''cs_1''" and status = paid_status and s = two_cart_shop and user = bob
      and uuid = "''o1''" and now_updated = "''t3''" and now = "''t4''" and t = pending_tx,
      OF stripe_up_status paid_status_paid tx np(1)]
  from T ct ne obtain ord where
    o: "orders ?s' = orders two_cart_shop @ [ord]" "o_user_id ord = u_id bob" "o_items ord = c_items bob_cart"
    and c: "carts ?s' = update_one (\<lambda>c. c_user_id c = u_id bob) (\<lambda>c. c\<lparr>c_items := []\<rparr>) (carts two_cart_shop)"
    by blast
  have o': "map o_user_id (orders ?s') = [u_id bob]" "map o_items (orders ?s') = [c_items bob_cart]"
    using o by (simp_all add: two_cart_shop_def)
  have c': "carts ?s' = [alice_cart, bob_cart\<lparr>c_items := []\<rparr>]"
    unfolding c by (simp add: two_cart_shop_def alice_cart_def bob_cart_def bob_def)
  from T have "payment_transactions ?s' =
           update_one (\<lambda>t. t_session_id t = ''cs_1'')
             (\<lambda>t. t\<lparr>t_status := ''complete'', t_payment_status := ''paid'', t_updated_at := Some ''t3''\<rparr>)
             (payment_transactions two_cart_shop)"
    by blast
  then have m: "payment_transactions ?s' = [paid_tx]"
    by (simp add: two_cart_shop_def pending_tx_def paid_tx_def)
  from stripe_up_status paid_status_paid tx np ct ne o' c' m show ?thesis
    by blast
qed

text \<open>
  Claim C10 as stated promises an order for the caller. Bob, who has no cart, polls the
  session Alice opened: the transaction is marked paid and no order is created.
\<close>

theorem get_checkout_status_acts_on_caller_counterexample:
  "api_get_checkout_status (stripe_up (webhook_url_of ''http://shop/'')) ''cs_1'' = Inr paid_status \<and>
   st_payment_status paid_status = ''paid'' \<and>
   find_one (\<lambda>t. t_session_id t = ''cs_1'') (payment_transactions pending_shop) = Some pending_tx \<and>
   t_payment_status pending_tx \<noteq> ''paid'' \<and>
   t_user_id pending_tx \<noteq> u_id bob \<and>
   get_checkout_status stripe_up pending_shop ''cs_1'' ''http://shop/'' bob ''o1'' ''t3'' ''t4'' =
     (Inr paid_status, pending_shop\<lparr>payment_transactions := [paid_tx]\<rparr>) \<and>
   orders (pending_shop\<lparr>payment_transactions := [paid_tx]\<rparr>) = []"
proof -
  have tx: "find_one (\<lambda>t. t_session_id t = ''cs_1'') (payment_transactions pending_shop) = Some pending_tx"
    by (simp add: find_one_def pending_shop_def pending_tx_def)
  have np: "t_payment_status pending_tx \<noteq> ''paid''" "t_user_id pending_tx \<noteq> u_id bob"
    by (simp_all add: pending_tx_def bob_def)
  have a: "get_checkout_status stripe_up pending_shop ''cs_1'' ''http://shop/'' bob ''o1'' ''t3'' ''t4'' =
             (Inr paid_status, pending_shop\<lparr>payment_transactions := [paid_tx]\<rparr>)"
    by (simp add: get_checkout_status_def Let_def stripe_up_status paid_status_paid tx np create_order_def)
       (simp add: pending_shop_def find_one_def alice_cart_def bob_def mark_paid_def pending_tx_def paid_tx_def)
  show ?thesis
    by (simp add: stripe_up_status paid_status_paid tx np a) (simp add: pending_shop_def)
qed

section \<open>The cart routes\<close>

lemma same_key_iff: "same_key item x \<longleftrightarrow> item_key x = item_key item"
  by (auto simp: same_key_def item_key_def)

lemma same_key_quantity [simp]: "same_key (item\<lparr>ci_quantity := n\<rparr>) = same_key item"
  by (rule ext) (simp add: same_key_def)

lemma first_index_None_iff: "first_index P xs = None \<longleftrightarrow> (\<forall>x\<in>set xs. \<not> P x)"
  by (induction xs) auto

lemma first_index_Some: "first_index P xs = Some i \<Longrightarrow> i < length xs \<and> P (xs ! i)"
  by (induction xs arbitrary: i) (auto split: if_splits)

lemma first_index_snoc:
  "first_index P xs = None \<Longrightarrow> first_index P (xs @ [y]) = (if P y then Some (length xs) else None)"
  by (induction xs) (auto split: if_splits)

lemma update_items_index:
  "update_items item xs =
     (case first_index (same_key item) xs of
        None \<Rightarrow> xs
      | Some i \<Rightarrow> if ci_quantity item \<le> 0 then take i xs @ drop (Suc i) xs
                  else xs[i := (xs ! i)\<lparr>ci_quantity := ci_quantity item\<rparr>])"
  by (induction xs) (auto split: option.splits)

lemma keys_update_items: "set (map item_key (update_items item xs)) \<subseteq> set (map item_key xs)"
  by (induction xs) (auto simp: item_key_def)

lemma distinct_update_items:
  "distinct (map item_key xs) \<Longrightarrow> distinct (map item_key (update_items item xs))"
proof (induction xs)
  case Nil
  then show ?case by simp
next
  case (Cons x xs)
  have "item_key x \<notin> set (map item_key (update_items item xs))"
    using Cons.prems keys_update_items [of item xs] by auto
  with Cons show ?case by (auto simp: item_key_def)
qed

lemma distinct_add_items:
  assumes "distinct (map item_key items)"
  shows "distinct (map item_key (add_items item items))"
proof (cases "first_index (same_key item) items")
  case None
  then have "item_key item \<notin> set (map item_key items)"
    by (auto simp: first_index_None_iff same_key_iff)
  with assms None show ?thesis by (simp add: add_items_def)
next
  case (Some i)
  then have "i < length items" by (simp add: first_index_Some)
  then have "map item_key (items[i := (items ! i)\<lparr>ci_quantity := ci_quantity (items ! i) + ci_quantity item\<rparr>])
               = map item_key items"
    by (simp add: map_update item_key_def list_update_same_conv)
  with assms Some show ?thesis by (simp add: add_items_def)
qed

lemma list_all_update_one:
  "list_all P xs \<Longrightarrow> (\<And>x. x \<in> set xs \<Longrightarrow> q x \<Longrightarrow> P (f x)) \<Longrightarrow> list_all P (update_one q f xs)"
  by (induction xs) auto

lemma find_one_in_set: "find_one q xs = Some x \<Longrightarrow> x \<in> set xs \<and> q x"
  by (auto simp: find_one_def find_Some_iff)

lemma find_one_insert_one:
  "find_one q (insert_one x xs) =
     (case find_one q xs of Some y \<Rightarrow> Some y | None \<Rightarrow> if q x then Some x else None)"
  by (induction xs) (auto simp: find_one_def insert_one_def)

lemma fits_int64_small [simp]: "fits_int64 0" "fits_int64 1" "fits_int64 2" "fits_int64 3" "fits_int64 5" "fits_int64 7"
  by (simp_all add: fits_int64_def)

lemma storable_snoc: "storable (xs @ [x]) \<longleftrightarrow> storable xs \<and> fits_int64 (ci_quantity x)"
  by (simp add: storable_def)

lemma storable_update:
  "i < length xs \<Longrightarrow> storable xs \<Longrightarrow>
     storable (xs[i := (xs ! i)\<lparr>ci_quantity := q\<rparr>]) \<longleftrightarrow> fits_int64 q"
proof (induction xs arbitrary: i)
  case Nil
  then show ?case by simp
next
  case (Cons x xs)
  then show ?case by (cases i) (auto simp: storable_def)
qed

lemma storable_update_items:
  "storable xs \<Longrightarrow>
     storable (update_items item xs) \<longleftrightarrow>
       first_index (same_key item) xs = None \<or> ci_quantity item \<le> 0 \<or> fits_int64 (ci_quantity item)"
  by (induction xs) (auto simp: storable_def)

lemma cart_inv_get_cart: "cart_inv s \<Longrightarrow> cart_inv (snd (get_cart s user uuid now))"
  by (simp add: cart_inv_def get_cart_def new_cart_def insert_one_def Let_def split: option.splits)

lemma cart_inv_add_to_cart:
  assumes "cart_inv s"
  shows "cart_inv (snd (add_to_cart s item user uuid now_created now))"
proof (cases "find_one (\<lambda>c. c_user_id c = u_id user) (carts s)")
  case None
  have "distinct (map item_key (add_items item []))"
    by (rule distinct_add_items) simp
  with assms None show ?thesis
    by (simp add: cart_inv_def add_to_cart_def new_cart_def insert_one_def Let_def list_all_update_one)
next
  case (Some c)
  then have "c \<in> set (carts s)" by (simp add: find_one_in_set)
  with assms have "distinct (map item_key (c_items c))"
    by (simp add: cart_inv_def list_all_iff)
  then have "distinct (map item_key (add_items item (c_items c)))"
    by (rule distinct_add_items)
  with assms Some show ?thesis
    by (simp add: cart_inv_def add_to_cart_def Let_def list_all_update_one)
qed

lemma cart_inv_update_cart_item:
  assumes "cart_inv s"
  shows "cart_inv (snd (update_cart_item s item user now))"
proof (cases "find_one (\<lambda>c. c_user_id c = u_id user) (carts s)")
  case None
  with assms show ?thesis by (simp add: update_cart_item_def)
next
  case (Some c)
  then have "c \<in> set (carts s)" by (simp add: find_one_in_set)
  with assms have "distinct (map item_key (c_items c))"
    by (simp add: cart_inv_def list_all_iff)
  then have "distinct (map item_key (update_items item (c_items c)))"
    by (rule distinct_update_items)
  with assms Some show ?thesis
    by (simp add: cart_inv_def update_cart_item_def Let_def list_all_update_one)
qed

lemma cart_inv_clear_cart: "cart_inv s \<Longrightarrow> cart_inv (snd (clear_cart s user now))"
  by (simp add: cart_inv_def clear_cart_def list_all_update_one)

lemma cart_inv_create_order: "cart_inv s \<Longrightarrow> cart_inv (create_order s user status session_id uuid now)"
  by (simp add: cart_inv_def create_order_def list_all_update_one split: option.splits)

lemma cart_inv_get_checkout_status:
  "cart_inv s \<Longrightarrow> cart_inv (snd (get_checkout_status SC s session_id base_url user uuid now_updated now))"
proof -
  assume a: "cart_inv s"
  have "\<And>txs. cart_inv (s\<lparr>payment_transactions := txs\<rparr>)"
    using a by (simp add: cart_inv_def)
  then show ?thesis
    using a by (simp add: get_checkout_status_def Let_def cart_inv_create_order split: sum.splits option.splits)
qed

text \<open>What \<^verbatim>\<open>add_to_cart\<close> leaves in the caller's cart when the encoder accepts the new
  items, and what it answers when the encoder refuses them.\<close>

lemma add_to_cart_stored:
  assumes "storable (add_items item
             (case find_one (\<lambda>c. c_user_id c = u_id user) (carts s) of
                Some c \<Rightarrow> c_items c | None \<Rightarrow> []))"
  shows "fst (add_to_cart s item user uuid now_created now) = Inr ''Item added to cart'' \<and>
         find_one (\<lambda>c. c_user_id c = u_id user) (carts (snd (add_to_cart s item user uuid now_created now))) =
           Some ((case find_one (\<lambda>c. c_user_id c = u_id user) (carts s) of
                    Some c \<Rightarrow> c | None \<Rightarrow> new_cart uuid (u_id user) now_created)
                 \<lparr>c_items := add_items item
                      (case find_one (\<lambda>c. c_user_id c = u_id user) (carts s) of
                         Some c \<Rightarrow> c_items c | None \<Rightarrow> []),
                   c_updated_at := now\<rparr>)"
proof (cases "find_one (\<lambda>c. c_user_id c = u_id user) (carts s)")
  case None
  with assms show ?thesis
    by (simp add: add_to_cart_def Let_def find_one_update_one find_one_insert_one new_cart_def)
next
  case (Some c)
  with assms show ?thesis
    by (simp add: add_to_cart_def Let_def find_one_update_one)
qed

lemma add_to_cart_refused:
  assumes "find_one (\<lambda>c. c_user_id c = u_id user) (carts s) = Some c"
    and "\<not> storable (add_items item (c_items c))"
  shows "add_to_cart s item user uuid now_created now = (Inl OverflowError, s)"
  using assms by (simp add: add_to_cart_def Let_def)

lemma add_items_twice:
  assumes "first_index (same_key item) old = None"
  shows "add_items (item\<lparr>ci_quantity := n\<rparr>) (add_items item old) =
           old @ [item\<lparr>ci_quantity := ci_quantity item + n\<rparr>]"
proof -
  have one: "add_items item old = old @ [item]"
    using assms by (simp add: add_items_def)
  have "first_index (same_key item) (old @ [item]) = Some (length old)"
    using assms by (simp add: first_index_snoc same_key_def)
  then have "add_items (item\<lparr>ci_quantity := n\<rparr>) (old @ [item]) =
               old @ [item\<lparr>ci_quantity := ci_quantity item + n\<rparr>]"
    by (simp add: add_items_def)
  then show ?thesis
    by (simp only: one)
qed

lemma filter_first_index_None: "first_index P xs = None \<Longrightarrow> filter P xs = []"
  by (induction xs) (auto split: if_splits)

lemma cart_inv_transactions [simp]: "cart_inv (s\<lparr>payment_transactions := txs\<rparr>) = cart_inv s"
  by (simp add: cart_inv_def)

lemma cart_inv_create_checkout_session:
  "cart_inv s \<Longrightarrow> cart_inv (snd (create_checkout_session F SC s origin_url base_url user uuid now))"
  by (simp add: create_checkout_session_def Let_def split: option.splits sum.splits)

lemma cart_inv_stripe_webhook:
  "cart_inv s \<Longrightarrow> cart_inv (snd (stripe_webhook SC s body signature base_url now))"
  by (simp add: stripe_webhook_def split: sum.splits)

text \<open>
  Claim C5, as the code has it. The store without carts satisfies the invariant, and every
  handler keeps it: from a store in which no cart holds two entries with the same product,
  size and color, each handler leads to such a store. Adding on a triple the cart has
  raises the quantity of that entry by the requested amount and appends nothing, when the
  new quantity fits the 8 bytes the store gives an int; when it does not, the handler
  fails with \<^verbatim>\<open>OverflowError\<close> and the store is what it was. Adding twice on a triple the
  cart lacks leaves one entry for it, with the sum of the two quantities, when the first
  quantity and the sum fit (2 and 3 give 5).
\<close>

theorem cart_invariant:
  assumes "cart_inv s"
  shows "cart_inv empty_db \<and>
         cart_inv (snd (get_cart s user uuid now)) \<and>
         cart_inv (snd (add_to_cart s item user uuid now_created now)) \<and>
         cart_inv (snd (update_cart_item s item user now)) \<and>
         cart_inv (snd (clear_cart s user now)) \<and>
         cart_inv (snd (create_checkout_session F SC s origin_url base_url user uuid now)) \<and>
         cart_inv (snd (get_checkout_status SC s session_id base_url user uuid now_updated now)) \<and>
         cart_inv (snd (stripe_webhook SC s body signature base_url now)) \<and>
         (\<forall>c i. find_one (\<lambda>c. c_user_id c = u_id user) (carts s) = Some c \<and> storable (c_items c) \<and>
                first_index (same_key item) (c_items c) = Some i \<longrightarrow>
            (fits_int64 (ci_quantity (c_items c ! i) + ci_quantity item) \<longrightarrow>
               fst (add_to_cart s item user uuid now_created now) = Inr ''Item added to cart'' \<and>
               map_option c_items
                 (find_one (\<lambda>c. c_user_id c = u_id user)
                    (carts (snd (add_to_cart s item user uuid now_created now)))) =
               Some ((c_items c)[i := (c_items c ! i)
                       \<lparr>ci_quantity := ci_quantity (c_items c ! i) + ci_quantity item\<rparr>])) \<and>
            (\<not> fits_int64 (ci_quantity (c_items c ! i) + ci_quantity item) \<longrightarrow>
               add_to_cart s item user uuid now_created now = (Inl OverflowError, s))) \<and>
         (\<forall>old. old = (case find_one (\<lambda>c. c_user_id c = u_id user) (carts s) of
                         None \<Rightarrow> [] | Some c \<Rightarrow> c_items c) \<and>
                storable old \<and> first_index (same_key item) old = None \<and>
                fits_int64 (ci_quantity item) \<and> fits_int64 (ci_quantity item + n) \<longrightarrow>
            map_option c_items
              (find_one (\<lambda>c. c_user_id c = u_id user)
                 (carts (snd (add_to_cart (snd (add_to_cart s item user uuid now_created now))
                                (item\<lparr>ci_quantity := n\<rparr>) user uuid' now_created' now')))) =
              Some (old @ [item\<lparr>ci_quantity := ci_quantity item + n\<rparr>]) \<and>
            filter (same_key item) (old @ [item\<lparr>ci_quantity := ci_quantity item + n\<rparr>]) =
              [item\<lparr>ci_quantity := ci_quantity item + n\<rparr>])"
proof -
  let ?q = "\<lambda>c. c_user_id c = u_id user"
  have init: "cart_inv empty_db"
    by (simp add: cart_inv_def empty_db_def)
  have incr: "\<forall>c i. find_one ?q (carts s) = Some c \<and> storable (c_items c) \<and>
                first_index (same_key item) (c_items c) = Some i \<longrightarrow>
            (fits_int64 (ci_quantity (c_items c ! i) + ci_quantity item) \<longrightarrow>
               fst (add_to_cart s item user uuid now_created now) = Inr ''Item added to cart'' \<and>
               map_option c_items (find_one ?q (carts (snd (add_to_cart s item user uuid now_created now)))) =
               Some ((c_items c)[i := (c_items c ! i)
                       \<lparr>ci_quantity := ci_quantity (c_items c ! i) + ci_quantity item\<rparr>])) \<and>
            (\<not> fits_int64 (ci_quantity (c_items c ! i) + ci_quantity item) \<longrightarrow>
               add_to_cart s item user uuid now_created now = (Inl OverflowError, s))"
  proof (intro allI impI, elim conjE)
    fix c i
    assume f: "find_one ?q (carts s) = Some c" and st: "storable (c_items c)"
      and ix: "first_index (same_key item) (c_items c) = Some i"
    let ?new = "(c_items c)[i := (c_items c ! i)
                   \<lparr>ci_quantity := ci_quantity (c_items c ! i) + ci_quantity item\<rparr>]"
    have a: "add_items item (c_items c) = ?new"
      using ix by (simp add: add_items_def)
    have i: "i < length (c_items c)"
      using ix by (simp add: first_index_Some)
    have s: "storable ?new \<longleftrightarrow> fits_int64 (ci_quantity (c_items c ! i) + ci_quantity item)"
      by (rule storable_update [OF i st])
    show "(fits_int64 (ci_quantity (c_items c ! i) + ci_quantity item) \<longrightarrow>
               fst (add_to_cart s item user uuid now_created now) = Inr ''Item added to cart'' \<and>
               map_option c_items (find_one ?q (carts (snd (add_to_cart s item user uuid now_created now)))) =
               Some ?new) \<and>
            (\<not> fits_int64 (ci_quantity (c_items c ! i) + ci_quantity item) \<longrightarrow>
               add_to_cart s item user uuid now_created now = (Inl OverflowError, s))"
    proof (intro conjI impI)
      assume ok: "fits_int64 (ci_quantity (c_items c ! i) + ci_quantity item)"
      then have "storable (add_items item (case find_one ?q (carts s) of Some c \<Rightarrow> c_items c | None \<Rightarrow> []))"
        by (simp add: f a s)
      note T = add_to_cart_stored [OF this, of uuid now_created now]
      from T show "fst (add_to_cart s item user uuid now_created now) = Inr ''Item added to cart''"
        by blast
      from T show "map_option c_items
                     (find_one ?q (carts (snd (add_to_cart s item user uuid now_created now)))) = Some ?new"
        by (simp add: f a)
    next
      assume "\<not> fits_int64 (ci_quantity (c_items c ! i) + ci_quantity item)"
      then have "\<not> storable (add_items item (c_items c))"
        by (simp add: a s)
      then show "add_to_cart s item user uuid now_created now = (Inl OverflowError, s)"
        by (rule add_to_cart_refused [OF f])
    qed
  qed
  have twice: "\<forall>old. old = (case find_one ?q (carts s) of None \<Rightarrow> [] | Some c \<Rightarrow> c_items c) \<and>
                storable old \<and> first_index (same_key item) old = None \<and>
                fits_int64 (ci_quantity item) \<and> fits_int64 (ci_quantity item + n) \<longrightarrow>
            map_option c_items
              (find_one ?q
                 (carts (snd (add_to_cart (snd (add_to_cart s item user uuid now_created now))
                                (item\<lparr>ci_quantity := n\<rparr>) user uuid' now_created' now')))) =
              Some (old @ [item\<lparr>ci_quantity := ci_quantity item + n\<rparr>]) \<and>
            filter (same_key item) (old @ [item\<lparr>ci_quantity := ci_quantity item + n\<rparr>]) =
              [item\<lparr>ci_quantity := ci_quantity item + n\<rparr>]"
  proof (intro allI impI, elim conjE)
    fix old
    assume o: "old = (case find_one ?q (carts s) of None \<Rightarrow> [] | Some c \<Rightarrow> c_items c)"
      and st: "storable old"
      and n: "first_index (same_key item) old = None"
      and q1: "fits_int64 (ci_quantity item)" and q2: "fits_int64 (ci_quantity item + n)"
    let ?s1 = "snd (add_to_cart s item user uuid now_created now)"
    have one: "add_items item old = old @ [item]"
      using n by (simp add: add_items_def)
    have two: "add_items (item\<lparr>ci_quantity := n\<rparr>) (old @ [item]) =
                 old @ [item\<lparr>ci_quantity := ci_quantity item + n\<rparr>]"
      using add_items_twice [OF n, of n] by (simp only: one)
    have "storable (add_items item (case find_one ?q (carts s) of Some c \<Rightarrow> c_items c | None \<Rightarrow> []))"
      using st q1 one o by (simp add: storable_snoc split: option.splits)
    from add_to_cart_stored [OF this, of uuid now_created now]
    have f1: "map_option c_items (find_one ?q (carts ?s1)) = Some (old @ [item])"
      using one o by (simp split: option.splits)
    then have old1: "(case find_one ?q (carts ?s1) of Some c \<Rightarrow> c_items c | None \<Rightarrow> []) = old @ [item]"
      by (auto split: option.splits)
    have "storable (add_items (item\<lparr>ci_quantity := n\<rparr>)
             (case find_one ?q (carts ?s1) of Some c \<Rightarrow> c_items c | None \<Rightarrow> []))"
      using st q2 by (simp only: old1 two) (simp add: storable_snoc)
    from add_to_cart_stored [OF this, of uuid' now_created' now']
    have "map_option c_items
              (find_one ?q (carts (snd (add_to_cart ?s1 (item\<lparr>ci_quantity := n\<rparr>) user uuid' now_created' now')))) =
            Some (add_items (item\<lparr>ci_quantity := n\<rparr>) (old @ [item]))"
      by (simp add: old1)
    moreover have "filter (same_key item) (old @ [item\<lparr>ci_quantity := ci_quantity item + n\<rparr>]) =
              [item\<lparr>ci_quantity := ci_quantity item + n\<rparr>]"
      using n by (simp add: filter_first_index_None same_key_def)
    ultimately show "map_option c_items
              (find_one ?q
                 (carts (snd (add_to_cart ?s1 (item\<lparr>ci_quantity := n\<rparr>) user uuid' now_created' now')))) =
              Some (old @ [item\<lparr>ci_quantity := ci_quantity item + n\<rparr>]) \<and>
            filter (same_key item) (old @ [item\<lparr>ci_quantity := ci_quantity item + n\<rparr>]) =
              [item\<lparr>ci_quantity := ci_quantity item + n\<rparr>]"
      by (simp only: two simp_thms)
  qed
  from init incr twice assms show ?thesis
    by (simp only: cart_inv_get_cart cart_inv_add_to_cart cart_inv_update_cart_item cart_inv_clear_cart
          cart_inv_create_checkout_session cart_inv_get_checkout_status cart_inv_stripe_webhook simp_thms)
qed

theorem cart_invariant_witness:
  "cart_inv bare_shop \<and>
   cart_inv (snd (add_to_cart bare_shop black9 alice ''c9'' ''t5'' ''t6'')) \<and>
   ci_quantity black9 = 2 \<and>
   storable [] \<and> first_index (same_key black9) [] = None \<and>
   fits_int64 (ci_quantity black9) \<and> fits_int64 (ci_quantity black9 + 3) \<and>
   map_option c_items
     (find_one (\<lambda>c. c_user_id c = u_id alice)
        (carts (snd (add_to_cart (snd (add_to_cart bare_shop black9 alice ''c9'' ''t5'' ''t6''))
                       (black9\<lparr>ci_quantity := 3\<rparr>) alice ''c10'' ''t7'' ''t8'')))) =
     Some [black9\<lparr>ci_quantity := 5\<rparr>] \<and>
   cart_inv shop \<and>
   find_one (\<lambda>c. c_user_id c = u_id alice) (carts shop) = Some alice_cart \<and>
   storable (c_items alice_cart) \<and>
   first_index (same_key (black9\<lparr>ci_quantity := 3\<rparr>)) (c_items alice_cart) = Some 0 \<and>
   fst (add_to_cart shop (black9\<lparr>ci_quantity := 3\<rparr>) alice ''c9'' ''t5'' ''t6'') = Inr ''Item added to cart'' \<and>
   map_option c_items
     (find_one (\<lambda>c. c_user_id c = u_id alice)
        (carts (snd (add_to_cart shop (black9\<lparr>ci_quantity := 3\<rparr>) alice ''c9'' ''t5'' ''t6'')))) =
     Some [black9\<lparr>ci_quantity := 5\<rparr>] \<and>
   cart_inv bulk_shop \<and>
   \<not> fits_int64 (ci_quantity bulk_item + ci_quantity bulk_item) \<and>
   add_to_cart bulk_shop bulk_item alice ''c9'' ''t5'' ''t6'' = (Inl OverflowError, bulk_shop)"
proof -
  have inv: "cart_inv bare_shop"
    by (simp add: cart_inv_def bare_shop_def)
  have ct: "find_one (\<lambda>c. c_user_id c = u_id alice) (carts bare_shop) = Some (alice_cart\<lparr>c_items := []\<rparr>)"
    by (simp add: find_one_def bare_shop_def alice_cart_def alice_def)
  have q: "ci_quantity black9 = 2"
    by (simp add: black9_def)
  have st: "storable []" "first_index (same_key black9) [] = None"
           "fits_int64 (ci_quantity black9)" "fits_int64 (ci_quantity black9 + 3)"
    by (simp_all add: storable_def q)
  note T = cart_invariant [OF inv, where user = alice and item = black9 and uuid = "''c9''"
      and now_created = "''t5''" and now = "''t6''" and n = 3 and uuid' = "''c10''"
      and now_created' = "''t7''" and now' = "''t8''"]
  from T have a: "cart_inv (snd (add_to_cart bare_shop black9 alice ''c9'' ''t5'' ''t6''))"
    by blast
  from T have "\<forall>old. old = (case find_one (\<lambda>c. c_user_id c = u_id alice) (carts bare_shop) of
                         None \<Rightarrow> [] | Some c \<Rightarrow> c_items c) \<and>
                storable old \<and> first_index (same_key black9) old = None \<and>
                fits_int64 (ci_quantity black9) \<and> fits_int64 (ci_quantity black9 + 3) \<longrightarrow>
            map_option c_items
              (find_one (\<lambda>c. c_user_id c = u_id alice)
                 (carts (snd (add_to_cart (snd (add_to_cart bare_shop black9 alice ''c9'' ''t5'' ''t6''))
                                (black9\<lparr>ci_quantity := 3\<rparr>) alice ''c10'' ''t7'' ''t8'')))) =
              Some (old @ [black9\<lparr>ci_quantity := ci_quantity black9 + 3\<rparr>])"
    by blast
  then have b: "map_option c_items
     (find_one (\<lambda>c. c_user_id c = u_id alice)
        (carts (snd (add_to_cart (snd (add_to_cart bare_shop black9 alice ''c9'' ''t5'' ''t6''))
                       (black9\<lparr>ci_quantity := 3\<rparr>) alice ''c10'' ''t7'' ''t8'')))) =
     Some [black9\<lparr>ci_quantity := 5\<rparr>]"
    using st by (simp add: ct q)
  have inv': "cart_inv shop"
    by (simp add: cart_inv_def shop_def alice_cart_def)
  have ct': "find_one (\<lambda>c. c_user_id c = u_id alice) (carts shop) = Some alice_cart"
    by (simp add: find_one_def shop_def alice_cart_def alice_def)
  have st': "storable (c_items alice_cart)"
    by (simp add: storable_def alice_cart_def q)
  have i0: "first_index (same_key (black9\<lparr>ci_quantity := 3\<rparr>)) (c_items alice_cart) = Some 0"
    by (simp add: alice_cart_def same_key_def)
  have f5: "fits_int64 (ci_quantity (c_items alice_cart ! 0) + ci_quantity (black9\<lparr>ci_quantity := 3\<rparr>))"
    by (simp add: alice_cart_def q)
  note T' = cart_invariant [OF inv', where user = alice and item = "black9\<lparr>ci_quantity := 3\<rparr>"
      and uuid = "''c9''" and now_created = "''t5''" and now = "''t6''"]
  from T' ct' st' i0 f5
  have c0: "fst (add_to_cart shop (black9\<lparr>ci_quantity := 3\<rparr>) alice ''c9'' ''t5'' ''t6'') = Inr ''Item added to cart'' \<and>
     map_option c_items
     (find_one (\<lambda>c. c_user_id c = u_id alice)
        (carts (snd (add_to_cart shop (black9\<lparr>ci_quantity := 3\<rparr>) alice ''c9'' ''t5'' ''t6'')))) =
     Some ((c_items alice_cart)[0 := (c_items alice_cart ! 0)
             \<lparr>ci_quantity := ci_quantity (c_items alice_cart ! 0) + ci_quantity (black9\<lparr>ci_quantity := 3\<rparr>)\<rparr>])"
    by blast
  then have c: "fst (add_to_cart shop (black9\<lparr>ci_quantity := 3\<rparr>) alice ''c9'' ''t5'' ''t6'') = Inr ''Item added to cart''"
    "map_option c_items
     (find_one (\<lambda>c. c_user_id c = u_id alice)
        (carts (snd (add_to_cart shop (black9\<lparr>ci_quantity := 3\<rparr>) alice ''c9'' ''t5'' ''t6'')))) =
     Some [black9\<lparr>ci_quantity := 5\<rparr>]"
    by (simp_all add: alice_cart_def q)
  have inv'': "cart_inv bulk_shop"
    by (simp add: cart_inv_def bulk_shop_def alice_cart_def)
  have ct'': "find_one (\<lambda>c. c_user_id c = u_id alice) (carts bulk_shop) = Some (alice_cart\<lparr>c_items := [bulk_item]\<rparr>)"
    by (simp add: find_one_def bulk_shop_def alice_cart_def alice_def)
  have st'': "storable (c_items (alice_cart\<lparr>c_items := [bulk_item]\<rparr>))"
    by (simp add: storable_def bulk_item_def fits_int64_def)
  have i0'': "first_index (same_key bulk_item) (c_items (alice_cart\<lparr>c_items := [bulk_item]\<rparr>)) = Some 0"
    by (simp add: same_key_def)
  have big: "\<not> fits_int64 (ci_quantity bulk_item + ci_quantity bulk_item)"
    by (simp add: bulk_item_def fits_int64_def)
  then have big': "\<not> fits_int64 (ci_quantity (c_items (alice_cart\<lparr>c_items := [bulk_item]\<rparr>) ! 0) + ci_quantity bulk_item)"
    by simp
  note T'' = cart_invariant [OF inv'', where user = alice and item = bulk_item
      and uuid = "''c9''" and now_created = "''t5''" and now = "''t6''"]
  from T'' ct'' st'' i0'' big'
  have d: "add_to_cart bulk_shop bulk_item alice ''c9'' ''t5'' ''t6'' = (Inl OverflowError, bulk_shop)"
    by blast
  from inv a q st b inv' ct' st' i0 c inv'' big d show ?thesis by simp
qed

text \<open>
  Claim C5 as stated lets every add on an existing triple raise the quantity. Alice's cart
  holds the triple with \<open>2\<^sup>6\<^sup>2\<close>; adding \<open>2\<^sup>6\<^sup>2\<close> more, a quantity the store accepts by
  itself, fails and leaves the entry at \<open>2\<^sup>6\<^sup>2\<close>.
\<close>

theorem add_to_cart_overflow_counterexample:
  "find_one (\<lambda>c. c_user_id c = u_id alice) (carts bulk_shop) = Some (alice_cart\<lparr>c_items := [bulk_item]\<rparr>) \<and>
   same_key bulk_item bulk_item \<and>
   fits_int64 (ci_quantity bulk_item) \<and>
   add_to_cart bulk_shop bulk_item alice ''c9'' ''t5'' ''t6'' = (Inl OverflowError, bulk_shop) \<and>
   map (\<lambda>c. map ci_quantity (c_items c)) (carts bulk_shop) = [[2 ^ 62]]"
  by (simp add: add_to_cart_def Let_def add_items_def storable_def fits_int64_def find_one_def
        bulk_shop_def bulk_item_def alice_cart_def alice_def same_key_def)

text \<open>
  Claim C6, as the code has it. Without a cart the update answers 404 and changes nothing.
  With a cart, the first entry that matches the triple is removed when the quantity is at
  most 0 and gets the given quantity otherwise; when no entry matches, the items are the
  same. The handler then writes the items and \<^verbatim>\<open>updated_at\<close> and answers success, so on a
  triple the cart lacks only \<^verbatim>\<open>updated_at\<close> changes. The write fails with
  \<^verbatim>\<open>OverflowError\<close>, and nothing changes, exactly when an entry matches and the quantity
  is positive and beyond the 8 bytes the store gives an int.
\<close>

theorem update_cart_item_effect:
  "(find_one (\<lambda>c. c_user_id c = u_id user) (carts s) = None \<longrightarrow>
      update_cart_item s item user now = (Inl (HTTPException 404 ''Cart not found''), s)) \<and>
   (\<forall>c. find_one (\<lambda>c. c_user_id c = u_id user) (carts s) = Some c \<longrightarrow>
      update_items item (c_items c) =
        (case first_index (same_key item) (c_items c) of
           None \<Rightarrow> c_items c
         | Some i \<Rightarrow>
             if ci_quantity item \<le> 0 then take i (c_items c) @ drop (Suc i) (c_items c)
             else (c_items c)[i := (c_items c ! i)\<lparr>ci_quantity := ci_quantity item\<rparr>]) \<and>
      (storable (update_items item (c_items c)) \<longrightarrow>
         update_cart_item s item user now =
           (Inr ''Cart updated'',
            s\<lparr>carts := update_one (\<lambda>c. c_user_id c = u_id user)
                          (\<lambda>c'. c'\<lparr>c_items := update_items item (c_items c), c_updated_at := now\<rparr>)
                          (carts s)\<rparr>) \<and>
         find_one (\<lambda>c. c_user_id c = u_id user) (carts (snd (update_cart_item s item user now))) =
           Some (c\<lparr>c_items := update_items item (c_items c), c_updated_at := now\<rparr>)) \<and>
      (\<not> storable (update_items item (c_items c)) \<longrightarrow>
         update_cart_item s item user now = (Inl OverflowError, s)) \<and>
      (storable (c_items c) \<longrightarrow>
         storable (update_items item (c_items c)) =
           (first_index (same_key item) (c_items c) = None \<or> ci_quantity item \<le> 0 \<or>
            fits_int64 (ci_quantity item))))"
  by (simp add: update_cart_item_def Let_def find_one_update_one update_items_index [symmetric]
        storable_update_items)

theorem update_cart_item_effect_witness:
  "find_one (\<lambda>c. c_user_id c = u_id alice) (carts shop) = Some alice_cart \<and>
   storable (c_items alice_cart) \<and>
   first_index (same_key (black9\<lparr>ci_quantity := 7\<rparr>)) (c_items alice_cart) = Some 0 \<and>
   first_index (same_key bob_item) (c_items alice_cart) = None \<and>
   update_cart_item shop (black9\<lparr>ci_quantity := 7\<rparr>) alice ''t5'' =
     (Inr ''Cart updated'',
      shop\<lparr>carts := [alice_cart\<lparr>c_items := [black9\<lparr>ci_quantity := 7\<rparr>], c_updated_at := ''t5''\<rparr>]\<rparr>) \<and>
   update_cart_item shop (black9\<lparr>ci_quantity := 0\<rparr>) alice ''t5'' =
     (Inr ''Cart updated'', shop\<lparr>carts := [alice_cart\<lparr>c_items := [], c_updated_at := ''t5''\<rparr>]\<rparr>) \<and>
   update_cart_item shop bob_item alice ''t5'' =
     (Inr ''Cart updated'', shop\<lparr>carts := [alice_cart\<lparr>c_updated_at := ''t5''\<rparr>]\<rparr>) \<and>
   update_cart_item shop black9 bob ''t5'' = (Inl (HTTPException 404 ''Cart not found''), shop) \<and>
   \<not> fits_int64 (2 ^ 63) \<and>
   update_cart_item shop (black9\<lparr>ci_quantity := 2 ^ 63\<rparr>) alice ''t5'' = (Inl OverflowError, shop)"
proof -
  have ct: "find_one (\<lambda>c. c_user_id c = u_id alice) (carts shop) = Some alice_cart"
    by (simp add: find_one_def shop_def alice_cart_def alice_def)
  have nb: "find_one (\<lambda>c. c_user_id c = u_id bob) (carts shop) = None"
    by (simp add: find_one_def shop_def alice_cart_def bob_def)
  have st: "storable (c_items alice_cart)"
    by (simp add: storable_def alice_cart_def black9_def)
  have i0: "first_index (same_key (black9\<lparr>ci_quantity := 7\<rparr>)) (c_items alice_cart) = Some 0"
           "first_index (same_key (black9\<lparr>ci_quantity := 0\<rparr>)) (c_items alice_cart) = Some 0"
           "first_index (same_key (black9\<lparr>ci_quantity := 2 ^ 63\<rparr>)) (c_items alice_cart) = Some 0"
    by (simp_all add: alice_cart_def same_key_def)
  have i1: "first_index (same_key bob_item) (c_items alice_cart) = None"
    by (simp add: alice_cart_def same_key_def bob_item_def black9_def)
  have big: "\<not> fits_int64 (2 ^ 63)"
    by (simp add: fits_int64_def)
  have carts: "carts shop = [alice_cart]" "c_user_id alice_cart = u_id alice" "c_items alice_cart = [black9]"
    by (simp_all add: shop_def alice_cart_def alice_def)
  from update_cart_item_effect [of alice shop "black9\<lparr>ci_quantity := 7\<rparr>" "''t5''"] ct st i0
  have a: "update_cart_item shop (black9\<lparr>ci_quantity := 7\<rparr>) alice ''t5'' =
     (Inr ''Cart updated'',
      shop\<lparr>carts := [alice_cart\<lparr>c_items := [black9\<lparr>ci_quantity := 7\<rparr>], c_updated_at := ''t5''\<rparr>]\<rparr>)"
    by (simp add: carts same_key_def storable_def black9_def bob_item_def fits_int64_def)
  from update_cart_item_effect [of alice shop "black9\<lparr>ci_quantity := 0\<rparr>" "''t5''"] ct st i0
  have b: "update_cart_item shop (black9\<lparr>ci_quantity := 0\<rparr>) alice ''t5'' =
     (Inr ''Cart updated'', shop\<lparr>carts := [alice_cart\<lparr>c_items := [], c_updated_at := ''t5''\<rparr>]\<rparr>)"
    by (simp add: carts same_key_def storable_def black9_def bob_item_def fits_int64_def)
  from update_cart_item_effect [of alice shop bob_item "''t5''"] ct st i1
  have c: "update_cart_item shop bob_item alice ''t5'' =
     (Inr ''Cart updated'', shop\<lparr>carts := [alice_cart\<lparr>c_updated_at := ''t5''\<rparr>]\<rparr>)"
    by (simp add: carts same_key_def storable_def black9_def bob_item_def fits_int64_def)
  from update_cart_item_effect [of bob shop black9 "''t5''"] nb
  have d: "update_cart_item shop black9 bob ''t5'' = (Inl (HTTPException 404 ''Cart not found''), shop)"
    by simp
  from update_cart_item_effect [of alice shop "black9\<lparr>ci_quantity := 2 ^ 63\<rparr>" "''t5''"] ct st i0 big
  have e: "update_cart_item shop (black9\<lparr>ci_quantity := 2 ^ 63\<rparr>) alice ''t5'' = (Inl OverflowError, shop)"
    by (simp add: carts same_key_def storable_def black9_def fits_int64_def)
  from ct st i0(1) i1 a b c d big e show ?thesis by blast
qed

text \<open>
  Claim C6 as stated calls the update of a triple the cart lacks a no-op, and lets the
  update of a triple the cart has set every positive quantity. On a triple the cart lacks
  the stored cart takes the new \<^verbatim>\<open>updated_at\<close>; on the triple it has, the quantity
  \<open>2\<^sup>6\<^sup>3\<close> makes the handler fail and the entry keeps its quantity 2.
\<close>

theorem update_cart_item_no_match_counterexample:
  "find_one (\<lambda>c. c_user_id c = u_id alice) (carts shop) = Some alice_cart \<and>
   first_index (same_key bob_item) (c_items alice_cart) = None \<and>
   fst (update_cart_item shop bob_item alice ''t5'') = Inr ''Cart updated'' \<and>
   snd (update_cart_item shop bob_item alice ''t5'') \<noteq> shop \<and>
   first_index (same_key (black9\<lparr>ci_quantity := 2 ^ 63\<rparr>)) (c_items alice_cart) = Some 0 \<and>
   update_cart_item shop (black9\<lparr>ci_quantity := 2 ^ 63\<rparr>) alice ''t5'' = (Inl OverflowError, shop) \<and>
   map ci_quantity (c_items alice_cart) = [2]"
  by (simp add: update_cart_item_def Let_def find_one_def shop_def alice_cart_def alice_def
        same_key_def bob_item_def black9_def storable_def fits_int64_def)

end
